theory Spec2Isabelle
  imports Complex_Main "HOL-Library.Char_ord" "HOL-Library.List_Lexorder"
    "HOL-Library.Product_Lexorder" "HOL-Library.Sublist"
begin

section \<open>Values of the Python layer\<close>

text \<open>
  The handlers of \<^verbatim>\<open>app.py\<close> read the parsed JSON body of a request
  (\<^verbatim>\<open>request.get_json()\<close>) and the query parameters (\<^verbatim>\<open>request.args\<close>).
  A parsed body is any JSON value. Python's \<^verbatim>\<open>json\<close> module reads an integer
  literal as an unbounded \<^verbatim>\<open>int\<close> and every other number as a \<^verbatim>\<open>float\<close>,
  which may be infinite (\<^verbatim>\<open>1e999\<close>) or not a number. A finite float is
  represented by the rational it denotes: the handlers never compute with floats, they
  only test, truncate, compare and store them. A dictionary is the list of its items.
  Characters are code points below 256.
\<close>

datatype xreal = NegInf | Fin rat | PosInf

datatype pyfloat = NaN | Real xreal

datatype json =
    JNull
  | JBool bool
  | JInt int
  | JFloat pyfloat
  | JStr string
  | JList "json list"
  | JObj "(string \<times> json) list"

text \<open>The exceptions of the Python layer and of the \<^verbatim>\<open>sqlite3\<close> binding that a
  handler can meet.\<close>

datatype exn =
    ValueError
  | TypeError
  | KeyError
  | AttributeError
  | OverflowError
  | ZeroDivisionError
  | ProgrammingError
  | IntegrityError
  | OperationalError
  | DatabaseFull

fun and_then :: "exn + 'a \<Rightarrow> ('a \<Rightarrow> exn + 'b) \<Rightarrow> exn + 'b" where
  "and_then (Inl e) f = Inl e"
| "and_then (Inr x) f = f x"

text \<open>Truth value of a JSON value, as \<^verbatim>\<open>not data\<close> and \<^verbatim>\<open>not data[field]\<close>
  test it.\<close>

fun truthy :: "json \<Rightarrow> bool" where
  "truthy JNull = False"
| "truthy (JBool b) = b"
| "truthy (JInt n) = (n \<noteq> 0)"
| "truthy (JFloat f) = (f \<noteq> Real (Fin 0))"
| "truthy (JStr s) = (s \<noteq> [])"
| "truthy (JList xs) = (xs \<noteq> [])"
| "truthy (JObj kvs) = (kvs \<noteq> [])"

subsection \<open>Strings\<close>

text \<open>The white space \<^verbatim>\<open>int\<close> and \<^verbatim>\<open>float\<close> strip from a string: tab to carriage return,
  the space, and beyond ASCII the next-line and no-break-space characters.\<close>

definition is_space :: "char \<Rightarrow> bool" where
  "is_space c = (of_char c \<in> {9, 10, 11, 12, 13, 32, 133, 160 :: nat})"

definition strip :: "string \<Rightarrow> string" where
  "strip s = rev (dropWhile is_space (rev (dropWhile is_space s)))"

definition is_digit :: "char \<Rightarrow> bool" where
  "is_digit c = (48 \<le> (of_char c :: nat) \<and> (of_char c :: nat) \<le> 57)"

definition digit_val :: "char \<Rightarrow> nat" where
  "digit_val c = of_char c - 48"

definition lower_char :: "char \<Rightarrow> char" where
  "lower_char c =
     (if 65 \<le> (of_char c :: nat) \<and> (of_char c :: nat) \<le> 90
      then char_of (of_char c + 32 :: nat) else c)"

text \<open>\<^verbatim>\<open>str.lower()\<close>. Only the letters A to Z are folded; the handlers compare the
  result with ASCII words only, for which folding the letters beyond ASCII as well gives the
  same answer.\<close>

definition lower :: "string \<Rightarrow> string" where
  "lower s = map lower_char s"

text \<open>\<^verbatim>\<open>sub in s\<close> on two strings.\<close>

fun is_substring :: "string \<Rightarrow> string \<Rightarrow> bool" where
  "is_substring sub [] = (sub = [])"
| "is_substring sub (c # cs) = (take (length sub) (c # cs) = sub \<or> is_substring sub cs)"

text \<open>
  A group of decimal digits in which single underscores may stand between digits, as
  \<^verbatim>\<open>int\<close> and \<^verbatim>\<open>float\<close> accept it. \<open>digitpart acc s\<close> reads all of \<open>s\<close> as
  such a group and gives its value; \<open>skip_digitpart s\<close> reads the longest group at the
  start of \<open>s\<close> and gives the rest.
\<close>

fun digitpart :: "nat \<Rightarrow> string \<Rightarrow> nat option" where
  "digitpart acc [] = None"
| "digitpart acc (c # cs) =
     (if \<not> is_digit c then None
      else (case cs of
              [] \<Rightarrow> Some (10 * acc + digit_val c)
            | x # rest \<Rightarrow>
                if x = CHR ''_'' then digitpart (10 * acc + digit_val c) rest
                else digitpart (10 * acc + digit_val c) cs))"

fun more_digits :: "string \<Rightarrow> string" where
  "more_digits [] = []"
| "more_digits [c] = (if is_digit c then [] else [c])"
| "more_digits (c # d # cs) =
     (if is_digit c then more_digits (d # cs)
      else if c = CHR ''_'' \<and> is_digit d then more_digits (d # cs)
      else c # d # cs)"

definition skip_digitpart :: "string \<Rightarrow> string option" where
  "skip_digitpart s =
     (case s of [] \<Rightarrow> None | c # cs \<Rightarrow> if is_digit c then Some (more_digits cs) else None)"

definition skip_sign :: "string \<Rightarrow> string" where
  "skip_sign s =
     (case s of [] \<Rightarrow> [] | c # cs \<Rightarrow> if c = CHR ''+'' \<or> c = CHR ''-'' then cs else c # cs)"

text \<open>\<^verbatim>\<open>int(s)\<close> for a string: surrounding white space, a sign, a digit group.
  \<open>None\<close> is \<^verbatim>\<open>ValueError\<close>. (Python 3.11 and later also refuse a string of more than
  4300 digits; that limit is not modelled.)\<close>

definition py_int_str :: "string \<Rightarrow> int option" where
  "py_int_str s =
     (case strip s of
        [] \<Rightarrow> None
      | c # cs \<Rightarrow>
          if c = CHR ''-'' then map_option (\<lambda>n. - int n) (digitpart 0 cs)
          else if c = CHR ''+'' then map_option int (digitpart 0 cs)
          else map_option int (digitpart 0 (c # cs)))"

text \<open>Does \<^verbatim>\<open>float(s)\<close> accept the string? The grammar is
  \<^verbatim>\<open>[sign] (digits ["." [digits]] | "." digits) [("e"|"E") [sign] digits]\<close>, or
  \<^verbatim>\<open>inf\<close>, \<^verbatim>\<open>infinity\<close>, \<^verbatim>\<open>nan\<close> in any case, between white space.\<close>

definition exponent_ok :: "string \<Rightarrow> bool" where
  "exponent_ok r =
     (case r of
        [] \<Rightarrow> True
      | e # r' \<Rightarrow> (e = CHR ''e'' \<or> e = CHR ''E'') \<and> skip_digitpart (skip_sign r') = Some [])"

definition float_number_ok :: "string \<Rightarrow> bool" where
  "float_number_ok s =
     (case skip_digitpart s of
        Some r \<Rightarrow>
          (case r of
             [] \<Rightarrow> True
           | c # r' \<Rightarrow>
               if c = CHR ''.''
               then exponent_ok (case skip_digitpart r' of Some r'' \<Rightarrow> r'' | None \<Rightarrow> r')
               else exponent_ok r)
      | None \<Rightarrow>
          (case s of
             [] \<Rightarrow> False
           | c # r \<Rightarrow>
               c = CHR ''.'' \<and>
               (case skip_digitpart r of Some r' \<Rightarrow> exponent_ok r' | None \<Rightarrow> False)))"

definition py_float_str_ok :: "string \<Rightarrow> bool" where
  "py_float_str_ok s =
     (let u = skip_sign (strip s)
      in lower u = ''inf'' \<or> lower u = ''infinity'' \<or> lower u = ''nan'' \<or> float_number_ok u)"

subsection \<open>The conversions \<^verbatim>\<open>float\<close> and \<^verbatim>\<open>int\<close>\<close>

text \<open>\<^verbatim>\<open>float(v)\<close>. The source discards the result, so only the outcome is kept. An
  integer that rounds beyond the largest double raises \<^verbatim>\<open>OverflowError\<close>.\<close>

fun py_float :: "json \<Rightarrow> exn + unit" where
  "py_float JNull = Inl TypeError"
| "py_float (JBool b) = Inr ()"
| "py_float (JInt n) = (if \<bar>n\<bar> < 2 ^ 1024 - 2 ^ 970 then Inr () else Inl OverflowError)"
| "py_float (JFloat f) = Inr ()"
| "py_float (JStr s) = (if py_float_str_ok s then Inr () else Inl ValueError)"
| "py_float (JList xs) = Inl TypeError"
| "py_float (JObj kvs) = Inl TypeError"

text \<open>\<^verbatim>\<open>int(v)\<close>: a float is truncated towards zero.\<close>

fun py_int :: "json \<Rightarrow> exn + int" where
  "py_int JNull = Inl TypeError"
| "py_int (JBool b) = Inr (if b then 1 else 0)"
| "py_int (JInt n) = Inr n"
| "py_int (JFloat NaN) = Inl ValueError"
| "py_int (JFloat (Real (Fin r))) = Inr (if 0 \<le> r then \<lfloor>r\<rfloor> else \<lceil>r\<rceil>)"
| "py_int (JFloat (Real NegInf)) = Inl OverflowError"
| "py_int (JFloat (Real PosInf)) = Inl OverflowError"
| "py_int (JStr s) = (case py_int_str s of None \<Rightarrow> Inl ValueError | Some n \<Rightarrow> Inr n)"
| "py_int (JList xs) = Inl TypeError"
| "py_int (JObj kvs) = Inl TypeError"

subsection \<open>Membership and subscription\<close>

text \<open>\<^verbatim>\<open>field in data\<close>: a key of a dictionary, an element of a list, a substring of a
  string; \<^verbatim>\<open>TypeError\<close> on anything else.\<close>

fun py_contains :: "json \<Rightarrow> string \<Rightarrow> exn + bool" where
  "py_contains (JObj kvs) field = Inr (field \<in> set (map fst kvs))"
| "py_contains (JList xs) field = Inr (JStr field \<in> set xs)"
| "py_contains (JStr s) field = Inr (is_substring field s)"
| "py_contains _ field = Inl TypeError"

text \<open>\<^verbatim>\<open>data[field]\<close> with a string \<open>field\<close>.\<close>

fun py_getitem :: "json \<Rightarrow> string \<Rightarrow> exn + json" where
  "py_getitem (JObj kvs) field =
     (case map_of kvs field of None \<Rightarrow> Inl KeyError | Some v \<Rightarrow> Inr v)"
| "py_getitem _ field = Inl TypeError"

text \<open>\<^verbatim>\<open>data.get(field, default)\<close>.\<close>

fun py_get :: "json \<Rightarrow> string \<Rightarrow> json \<Rightarrow> exn + json" where
  "py_get (JObj kvs) field dflt =
     (case map_of kvs field of None \<Rightarrow> Inr dflt | Some v \<Rightarrow> Inr v)"
| "py_get _ field dflt = Inl AttributeError"

section \<open>Validation\<close>

text \<open>
  \<^verbatim>\<open>validate_item_data(data, required_fields=None)\<close>. The loop over the required fields
  is \<open>check_required\<close>; \<open>check_price\<close> and \<open>check_quantity\<close> are the two type checks,
  whose \<^verbatim>\<open>try\<close> catches \<^verbatim>\<open>ValueError\<close> and \<^verbatim>\<open>TypeError\<close> and nothing else. The
  result is the list \<^verbatim>\<open>errors\<close>, or the exception that escapes.
\<close>

definition required_msg :: "string \<Rightarrow> string" where
  "required_msg field = [CHR 0x27] @ field @ [CHR 0x27] @ '' is required''"

definition price_msg :: "string" where
  "price_msg = [CHR 0x27] @ ''price'' @ [CHR 0x27] @ '' must be a valid number''"

definition quantity_msg :: "string" where
  "quantity_msg = [CHR 0x27] @ ''quantity'' @ [CHR 0x27] @ '' must be a valid integer''"

fun check_required :: "json \<Rightarrow> string list \<Rightarrow> exn + string list" where
  "check_required data [] = Inr []"
| "check_required data (field # others) =
     and_then (py_contains data field) (\<lambda>present.
     and_then (if \<not> present then Inr True
               else and_then (py_getitem data field) (\<lambda>v. Inr (\<not> truthy v))) (\<lambda>missing.
     and_then (check_required data others) (\<lambda>rest.
       Inr ((if missing then [required_msg field] else []) @ rest))))"

definition check_price :: "json \<Rightarrow> exn + string list" where
  "check_price data =
     and_then (py_contains data ''price'') (\<lambda>present.
       if \<not> present then Inr []
       else and_then (py_getitem data ''price'') (\<lambda>v.
         case v of
           JNull \<Rightarrow> Inr []
         | _ \<Rightarrow> (case py_float v of
                   Inr _ \<Rightarrow> Inr []
                 | Inl ValueError \<Rightarrow> Inr [price_msg]
                 | Inl TypeError \<Rightarrow> Inr [price_msg]
                 | Inl e \<Rightarrow> Inl e)))"

definition check_quantity :: "json \<Rightarrow> exn + string list" where
  "check_quantity data =
     and_then (py_contains data ''quantity'') (\<lambda>present.
       if \<not> present then Inr []
       else and_then (py_getitem data ''quantity'') (\<lambda>v.
         case v of
           JNull \<Rightarrow> Inr []
         | _ \<Rightarrow> (case py_int v of
                   Inr _ \<Rightarrow> Inr []
                 | Inl ValueError \<Rightarrow> Inr [quantity_msg]
                 | Inl TypeError \<Rightarrow> Inr [quantity_msg]
                 | Inl e \<Rightarrow> Inl e)))"

definition validate_item_data :: "json \<Rightarrow> string list option \<Rightarrow> exn + string list" where
  "validate_item_data data required_fields =
     and_then (check_required data
                 (case required_fields of None \<Rightarrow> [''name''] | Some fs \<Rightarrow> fs))
       (\<lambda>errors1.
     and_then (check_price data) (\<lambda>errors2.
     and_then (check_quantity data) (\<lambda>errors3.
       Inr (errors1 @ errors2 @ errors3))))"

section \<open>The store\<close>

text \<open>
  The table \<^verbatim>\<open>items\<close> that \<^verbatim>\<open>init_db\<close> creates. A stored value has one of SQLite's
  storage classes (no JSON value is bound as a blob). The rows are kept in the order of a
  table scan. \<^verbatim>\<open>AUTOINCREMENT\<close> keeps the largest row id ever given in
  \<^verbatim>\<open>sqlite_sequence\<close>.
\<close>

datatype sqlval = SNull | SInt int | SReal xreal | SText string

record row =
  row_id :: int
  name :: sqlval
  description :: sqlval
  category :: sqlval
  price :: sqlval
  quantity :: sqlval
  created_at :: sqlval
  updated_at :: sqlval

record db =
  rows :: "row list"
  sqlite_sequence :: int

text \<open>
  SQLite's conversions between text and numbers are not code of the repository, and
  rendering a double as text has no counterpart on rationals. They are a parameter of the
  model: \<open>text_of_num\<close> renders an integer or real value as text, \<open>num_of_text\<close>
  reads a text that looks like a number (\<open>None\<close> when it does not).
\<close>

record coercions =
  text_of_num :: "sqlval \<Rightarrow> string"
  num_of_text :: "string \<Rightarrow> sqlval option"

datatype affinity = AffText | AffReal | AffInteger

text \<open>A real that is a whole number strictly inside the 64-bit range is stored as an
  integer in a column of integer affinity.\<close>

fun integer_of_real :: "xreal \<Rightarrow> sqlval" where
  "integer_of_real (Fin r) =
     (if r = of_int \<lfloor>r\<rfloor> \<and> - (2 ^ 63) < \<lfloor>r\<rfloor> \<and> \<lfloor>r\<rfloor> < 2 ^ 63 - 1
      then SInt \<lfloor>r\<rfloor> else SReal (Fin r))"
| "integer_of_real x = SReal x"

text \<open>The column affinity applied to a value on its way into a column: \<^verbatim>\<open>TEXT\<close> for
  \<^verbatim>\<open>name\<close>, \<^verbatim>\<open>description\<close> and \<^verbatim>\<open>category\<close>, \<^verbatim>\<open>REAL\<close> for \<^verbatim>\<open>price\<close>,
  \<^verbatim>\<open>INTEGER\<close> for \<^verbatim>\<open>quantity\<close>. (An integer beyond \<open>2 ^ 53\<close> that goes into the
  \<^verbatim>\<open>REAL\<close> column is rounded to a double by SQLite; here it keeps its value.)\<close>

fun apply_affinity :: "coercions \<Rightarrow> affinity \<Rightarrow> sqlval \<Rightarrow> sqlval" where
  "apply_affinity cv aff SNull = SNull"
| "apply_affinity cv AffText (SText s) = SText s"
| "apply_affinity cv AffText (SInt n) = SText (text_of_num cv (SInt n))"
| "apply_affinity cv AffText (SReal x) = SText (text_of_num cv (SReal x))"
| "apply_affinity cv AffReal (SReal x) = SReal x"
| "apply_affinity cv AffReal (SInt n) = SReal (Fin (of_int n))"
| "apply_affinity cv AffReal (SText s) =
     (case num_of_text cv s of
        Some (SInt n) \<Rightarrow> SReal (Fin (of_int n))
      | Some (SReal x) \<Rightarrow> SReal x
      | _ \<Rightarrow> SText s)"
| "apply_affinity cv AffInteger (SInt n) = SInt n"
| "apply_affinity cv AffInteger (SReal x) = integer_of_real x"
| "apply_affinity cv AffInteger (SText s) =
     (case num_of_text cv s of
        Some (SInt n) \<Rightarrow> SInt n
      | Some (SReal x) \<Rightarrow> integer_of_real x
      | _ \<Rightarrow> SText s)"

text \<open>
  Binding a Python value to a \<^verbatim>\<open>?\<close> of a statement. A \<^verbatim>\<open>bool\<close> is an \<^verbatim>\<open>int\<close>; an
  \<^verbatim>\<open>int\<close> outside 64 bits raises \<^verbatim>\<open>OverflowError\<close>; a list or a dictionary is not
  supported; SQLite stores a NaN as \<^verbatim>\<open>NULL\<close>.
\<close>

definition bind_int :: "int \<Rightarrow> exn + int" where
  "bind_int n = (if - (2 ^ 63) \<le> n \<and> n \<le> 2 ^ 63 - 1 then Inr n else Inl OverflowError)"

fun bind_param :: "json \<Rightarrow> exn + sqlval" where
  "bind_param JNull = Inr SNull"
| "bind_param (JBool b) = Inr (SInt (if b then 1 else 0))"
| "bind_param (JInt n) = and_then (bind_int n) (\<lambda>i. Inr (SInt i))"
| "bind_param (JFloat NaN) = Inr SNull"
| "bind_param (JFloat (Real x)) = Inr (SReal x)"
| "bind_param (JStr s) = Inr (SText s)"
| "bind_param (JList xs) = Inl ProgrammingError"
| "bind_param (JObj kvs) = Inl ProgrammingError"

fun bind_params :: "json list \<Rightarrow> exn + sqlval list" where
  "bind_params [] = Inr []"
| "bind_params (v # vs) =
     and_then (bind_param v) (\<lambda>x. and_then (bind_params vs) (\<lambda>xs. Inr (x # xs)))"

subsection \<open>Statements\<close>

text \<open>\<^verbatim>\<open>SELECT * FROM items WHERE id = ?\<close> followed by \<^verbatim>\<open>fetchone()\<close>.\<close>

definition select_by_id :: "db \<Rightarrow> int \<Rightarrow> exn + row option" where
  "select_by_id d i = and_then (bind_int i) (\<lambda>k. Inr (find (\<lambda>r. row_id r = k) (rows d)))"

text \<open>The row id \<^verbatim>\<open>AUTOINCREMENT\<close> gives next: one more than the largest id in the table
  or ever given.\<close>

definition next_id :: "db \<Rightarrow> int" where
  "next_id d = foldr max (map row_id (rows d)) (sqlite_sequence d) + 1"

text \<open>
  \<^verbatim>\<open>INSERT INTO items (name, description, category, price, quantity) VALUES (?, ?, ?, ?, ?)\<close>
  at the time \<open>now\<close> (the text \<^verbatim>\<open>CURRENT_TIMESTAMP\<close> gives, the default of both
  timestamps). The result is the new store and \<^verbatim>\<open>cursor.lastrowid\<close>.
\<close>

definition insert_item ::
  "coercions \<Rightarrow> string \<Rightarrow> db \<Rightarrow> json \<Rightarrow> json \<Rightarrow> json \<Rightarrow> json \<Rightarrow> json \<Rightarrow> exn + db \<times> int" where
  "insert_item cv now d v_name v_description v_category v_price v_quantity =
     and_then (bind_param v_name) (\<lambda>b_name.
     and_then (bind_param v_description) (\<lambda>b_description.
     and_then (bind_param v_category) (\<lambda>b_category.
     and_then (bind_param v_price) (\<lambda>b_price.
     and_then (bind_param v_quantity) (\<lambda>b_quantity.
       if apply_affinity cv AffText b_name = SNull then Inl IntegrityError
       else if 2 ^ 63 - 1 < next_id d then Inl DatabaseFull
       else Inr (d\<lparr>rows := rows d @
                     [\<lparr>row_id = next_id d,
                       name = apply_affinity cv AffText b_name,
                       description = apply_affinity cv AffText b_description,
                       category = apply_affinity cv AffText b_category,
                       price = apply_affinity cv AffReal b_price,
                       quantity = apply_affinity cv AffInteger b_quantity,
                       created_at = SText now,
                       updated_at = SText now\<rparr>],
                    sqlite_sequence := next_id d\<rparr>,
                 next_id d))))))"

text \<open>One assignment \<^verbatim>\<open>field = ?\<close> of the \<^verbatim>\<open>UPDATE\<close> statement, on one row.\<close>

definition set_field :: "coercions \<Rightarrow> string \<times> sqlval \<Rightarrow> row \<Rightarrow> row" where
  "set_field cv a r =
     (if fst a = ''name'' then r\<lparr>name := apply_affinity cv AffText (snd a)\<rparr>
      else if fst a = ''description'' then r\<lparr>description := apply_affinity cv AffText (snd a)\<rparr>
      else if fst a = ''category'' then r\<lparr>category := apply_affinity cv AffText (snd a)\<rparr>
      else if fst a = ''price'' then r\<lparr>price := apply_affinity cv AffReal (snd a)\<rparr>
      else if fst a = ''quantity'' then r\<lparr>quantity := apply_affinity cv AffInteger (snd a)\<rparr>
      else r)"

text \<open>
  \<^verbatim>\<open>UPDATE items SET ... WHERE id = ?\<close> with the trigger \<^verbatim>\<open>update_timestamp\<close>, which
  sets \<^verbatim>\<open>updated_at\<close> of every updated row to \<^verbatim>\<open>CURRENT_TIMESTAMP\<close>. The column
  \<^verbatim>\<open>name\<close> is \<^verbatim>\<open>NOT NULL\<close>.
\<close>

definition update_row :: "coercions \<Rightarrow> string \<Rightarrow> (string \<times> sqlval) list \<Rightarrow> row \<Rightarrow> row" where
  "update_row cv now assignments r = (fold (set_field cv) assignments r)\<lparr>updated_at := SText now\<rparr>"

definition exec_update ::
  "coercions \<Rightarrow> string \<Rightarrow> db \<Rightarrow> (string \<times> json) list \<Rightarrow> int \<Rightarrow> exn + db" where
  "exec_update cv now d update_fields item_id =
     and_then (bind_params (map snd update_fields)) (\<lambda>params.
     and_then (bind_int item_id) (\<lambda>k.
       let assignments = zip (map fst update_fields) params;
           rows' = map (\<lambda>r. if row_id r = k then update_row cv now assignments r else r) (rows d)
       in if \<exists>r \<in> set rows'. row_id r = k \<and> name r = SNull then Inl IntegrityError
          else Inr (d\<lparr>rows := rows'\<rparr>)))"

text \<open>\<^verbatim>\<open>DELETE FROM items WHERE id = ?\<close>.\<close>

definition exec_delete :: "db \<Rightarrow> int \<Rightarrow> exn + db" where
  "exec_delete d item_id =
     and_then (bind_int item_id) (\<lambda>k. Inr (d\<lparr>rows := filter (\<lambda>r. row_id r \<noteq> k) (rows d)\<rparr>))"

subsection \<open>The listing query\<close>

text \<open>
  \<^verbatim>\<open>get_items\<close> builds its query as text: \<^verbatim>\<open>SELECT * FROM items WHERE 1=1\<close>, then
  \<^verbatim>\<open>AND category = ?\<close>, then \<^verbatim>\<open>AND (name LIKE ? OR description LIKE ?)\<close>, then
  \<^verbatim>\<open>ORDER BY column direction\<close>. The record holds the parts that were added.
\<close>

datatype direction = Asc | Desc

record query =
  where_category :: "string option"
  where_like :: "string option"
  order_by :: "(string \<times> direction) option"

text \<open>
  SQLite's \<^verbatim>\<open>LIKE\<close>. The comparison of a pattern with a text: \<^verbatim>\<open>%\<close> matches any run
  of characters, \<^verbatim>\<open>_\<close> any one character, every other character itself, the letters A
  to Z in either case.
\<close>

fun pattern_compare :: "string \<Rightarrow> string \<Rightarrow> bool" where
  "pattern_compare [] [] = True"
| "pattern_compare [] (c # cs) = False"
| "pattern_compare (p # ps) [] = (p = CHR ''%'' \<and> pattern_compare ps [])"
| "pattern_compare (p # ps) (c # cs) =
     (if p = CHR ''%'' then pattern_compare ps (c # cs) \<or> pattern_compare (p # ps) cs
      else if p = CHR ''_'' then pattern_compare ps cs
      else lower_char p = lower_char c \<and> pattern_compare ps cs)"

text \<open>The comparison reads the pattern and the text as C strings: each ends before its
  first NUL character.\<close>

definition c_string :: "string \<Rightarrow> string" where
  "c_string s = takeWhile (\<lambda>c. c \<noteq> CHR 0x00) s"

text \<open>The length of a text in bytes, which is how SQLite measures it: two bytes for a
  character from 128 on.\<close>

definition utf8_length :: "string \<Rightarrow> nat" where
  "utf8_length s = sum_list (map (\<lambda>c. if (of_char c :: nat) < 128 then 1 else 2) s)"

definition like_pattern_limit :: nat where
  "like_pattern_limit = 50000"

text \<open>
  The function behind \<^verbatim>\<open>LIKE\<close>, on a pattern and a text that may be \<^verbatim>\<open>NULL\<close>
  (\<open>None\<close>). It first refuses a pattern of more than 50000 bytes, the whole pattern
  counted, with the error \<^verbatim>\<open>LIKE or GLOB pattern too complex\<close>, which \<^verbatim>\<open>sqlite3\<close>
  raises as \<^verbatim>\<open>OperationalError\<close>. On \<^verbatim>\<open>NULL\<close> the result is unknown, which selects no
  row.
\<close>

definition like_match :: "string \<Rightarrow> string option \<Rightarrow> exn + bool" where
  "like_match pat t =
     (if like_pattern_limit < utf8_length pat then Inl OperationalError
      else Inr (case t of
                  None \<Rightarrow> False
                | Some s \<Rightarrow> pattern_compare (c_string pat) (c_string s)))"

text \<open>\<^verbatim>\<open>column LIKE ?\<close>: a number is matched as its text.\<close>

definition sql_like :: "coercions \<Rightarrow> string \<Rightarrow> sqlval \<Rightarrow> exn + bool" where
  "sql_like cv pat v =
     like_match pat
       (case v of
          SNull \<Rightarrow> None
        | SText s \<Rightarrow> Some s
        | _ \<Rightarrow> Some (text_of_num cv v))"

text \<open>
  The \<^verbatim>\<open>WHERE\<close> clause on one row. The tests are made from left to right: a row whose
  category is not the one asked for (or is \<^verbatim>\<open>NULL\<close>) does not reach the \<^verbatim>\<open>LIKE\<close>
  tests, and the description is tested only when the name does not match.
\<close>

definition where_clause :: "coercions \<Rightarrow> query \<Rightarrow> row \<Rightarrow> exn + bool" where
  "where_clause cv q r =
     (if (case where_category q of None \<Rightarrow> True | Some c \<Rightarrow> category r = SText c)
      then (case where_like q of
              None \<Rightarrow> Inr True
            | Some pat \<Rightarrow>
                and_then (sql_like cv pat (name r)) (\<lambda>m.
                  if m then Inr True else sql_like cv pat (description r)))
      else Inr False)"

text \<open>A row matches the filters when the clause is true of it.\<close>

definition row_matches :: "coercions \<Rightarrow> query \<Rightarrow> row \<Rightarrow> bool" where
  "row_matches cv q r = (where_clause cv q r = Inr True)"

text \<open>The scan of the table: the clause on each row in turn. The first error ends the
  statement.\<close>

fun scan :: "coercions \<Rightarrow> query \<Rightarrow> row list \<Rightarrow> exn + row list" where
  "scan cv q [] = Inr []"
| "scan cv q (r # rs) =
     and_then (where_clause cv q r) (\<lambda>m.
     and_then (scan cv q rs) (\<lambda>ms. Inr (if m then r # ms else ms)))"

definition column_value :: "string \<Rightarrow> row \<Rightarrow> sqlval" where
  "column_value col r =
     (if col = ''id'' then SInt (row_id r)
      else if col = ''name'' then name r
      else if col = ''category'' then category r
      else if col = ''price'' then price r
      else if col = ''quantity'' then quantity r
      else if col = ''created_at'' then created_at r
      else SNull)"

text \<open>
  The order of \<^verbatim>\<open>ORDER BY\<close>: \<^verbatim>\<open>NULL\<close> first, then the numbers by value, then the
  texts character by character. \<open>sql_key\<close> maps a value to a key with that order.
\<close>

fun sql_key :: "sqlval \<Rightarrow> nat \<times> nat \<times> rat \<times> string" where
  "sql_key SNull = (0, 0, 0, [])"
| "sql_key (SInt n) = (1, 1, of_int n, [])"
| "sql_key (SReal NegInf) = (1, 0, 0, [])"
| "sql_key (SReal (Fin r)) = (1, 1, r, [])"
| "sql_key (SReal PosInf) = (1, 2, 0, [])"
| "sql_key (SText s) = (2, 0, 0, s)"


text \<open>Rows that compare equal keep the order of the table scan, in both directions
  (SQLite leaves their order open).\<close>

definition order_rows :: "(string \<times> direction) option \<Rightarrow> row list \<Rightarrow> row list" where
  "order_rows ob rs =
     (case ob of
        None \<Rightarrow> rs
      | Some (col, Asc) \<Rightarrow> sort_key (\<lambda>r. sql_key (column_value col r)) rs
      | Some (col, Desc) \<Rightarrow> rev (sort_key (\<lambda>r. sql_key (column_value col r)) (rev rs)))"

text \<open>\<^verbatim>\<open>LIMIT ? OFFSET ?\<close>: a negative limit is no limit, a negative offset is 0.\<close>

definition limit_offset :: "int \<Rightarrow> int \<Rightarrow> 'a list \<Rightarrow> 'a list" where
  "limit_offset limit offset xs =
     (if limit < 0 then drop (nat offset) xs else take (nat limit) (drop (nat offset) xs))"

text \<open>The count query, \<^verbatim>\<open>SELECT COUNT(*)\<close> with the same clause.\<close>

definition run_count :: "coercions \<Rightarrow> db \<Rightarrow> query \<Rightarrow> exn + int" where
  "run_count cv d q = and_then (scan cv q (rows d)) (\<lambda>ms. Inr (int (length ms)))"

text \<open>The page query. Its two numbers are bound first. With the limit 0 the statement
  ends before it reads a row.\<close>

definition run_select :: "coercions \<Rightarrow> db \<Rightarrow> query \<Rightarrow> int \<Rightarrow> int \<Rightarrow> exn + row list" where
  "run_select cv d q limit offset =
     and_then (bind_int limit) (\<lambda>l.
     and_then (bind_int offset) (\<lambda>k.
       if l = 0 then Inr []
       else and_then (scan cv q (rows d)) (\<lambda>ms.
              Inr (limit_offset l k (order_rows (order_by q) ms)))))"

section \<open>The handlers\<close>

text \<open>
  A response is a status code and a JSON document; \<open>body\<close> has one constructor for
  each shape of document the handlers build with \<^verbatim>\<open>jsonify\<close>, a row standing for the
  dictionary \<^verbatim>\<open>dict_from_row\<close> makes of it. Each handler is written twice: its \<^verbatim>\<open>try\<close>
  block, which returns a response or raises, and the handler itself, whose
  \<^verbatim>\<open>except Exception\<close> turns every exception into the response 500. Beside the response
  a handler gives the store it leaves and the statements it ran on the table, in order.
  A statement that raises changes nothing, and neither does a handler that raises before
  its \<^verbatim>\<open>commit\<close>.

  The handlers are the view functions, and a response is what a view function returns. The
  function registered with \<^verbatim>\<open>teardown_appcontext\<close> runs after the view function has
  returned and is no part of them. It is defined under the name \<^verbatim>\<open>close_db\<close> of the
  helper it means to call, so it calls itself without its argument and raises
  \<^verbatim>\<open>TypeError\<close> whenever an application context ends.
\<close>

record pagination =
  page :: int
  per_page :: int
  total_items :: int
  total_pages :: int
  has_next :: bool
  has_prev :: bool

record filters =
  filter_category :: "string option"
  filter_search :: "string option"
  filter_sort_by :: string
  filter_sort_order :: string

datatype body =
    Error string
  | ErrorDetails string "string list"
  | Item row
  | MessageItem string row
  | Message string
  | Listing "row list" pagination filters

type_synonym response = "nat \<times> body"

datatype stmt = SelectItem | SelectCount | SelectPage | InsertItem | UpdateItem | DeleteItem

definition internal_error :: response where
  "internal_error = (500, Error ''Internal server error'')"

definition respond :: "exn + response \<Rightarrow> response" where
  "respond r = (case r of Inl e \<Rightarrow> internal_error | Inr resp \<Rightarrow> resp)"

subsection \<open>\<^verbatim>\<open>init_db\<close>\<close>

definition empty_db :: db where
  "empty_db = \<lparr>rows = [], sqlite_sequence = 0\<rparr>"

definition sample_items :: "(json \<times> json \<times> json \<times> json \<times> json) list" where
  "sample_items =
     [(JStr ''Laptop'', JStr ''High-performance laptop for development'', JStr ''Electronics'',
         JFloat (Real (Fin 999.99)), JInt 5),
      (JStr ''Coffee Mug'', JStr ''Ceramic mug for hot beverages'', JStr ''Kitchen'',
         JFloat (Real (Fin 12.99)), JInt 20),
      (JStr ''Python Book'', JStr ''Learn Python programming'', JStr ''Books'',
         JFloat (Real (Fin 39.99)), JInt 15),
      (JStr ''Wireless Mouse'', JStr ''Ergonomic wireless mouse'', JStr ''Electronics'',
         JFloat (Real (Fin 29.99)), JInt 30),
      (JStr ''Notebook'', JStr ''Spiral-bound notebook'', JStr ''Office'',
         JFloat (Real (Fin 4.99)), JInt 50)]"

fun insert_all ::
  "coercions \<Rightarrow> string \<Rightarrow> db \<Rightarrow> (json \<times> json \<times> json \<times> json \<times> json) list \<Rightarrow> exn + db" where
  "insert_all cv now d [] = Inr d"
| "insert_all cv now d ((n, ds, c, p, q) # items) =
     and_then (insert_item cv now d n ds c p q) (\<lambda>r. insert_all cv now (fst r) items)"

text \<open>
  \<^verbatim>\<open>init_db\<close> inserts the sample items into an empty table and commits, inside
  \<^verbatim>\<open>with app.app_context()\<close>. Leaving that block runs the teardown function, which
  raises \<^verbatim>\<open>TypeError\<close>: the call never returns normally. The result is the exception
  and the store the call leaves, which holds the sample items when they were committed and
  is the store as it was when an insertion raised before the commit.
\<close>

definition init_db :: "coercions \<Rightarrow> string \<Rightarrow> db \<Rightarrow> exn \<times> db" where
  "init_db cv now d =
     (case (if length (rows d) = 0 then insert_all cv now d sample_items else Inr d) of
        Inl e \<Rightarrow> (TypeError, d)
      | Inr d' \<Rightarrow> (TypeError, d'))"

subsection \<open>\<^verbatim>\<open>GET /items\<close>\<close>

text \<open>\<^verbatim>\<open>request.args\<close> is the list of the parameters in the order of the query string;
  \<^verbatim>\<open>get\<close> gives the first value of a key. With \<^verbatim>\<open>type=int\<close>, a value \<^verbatim>\<open>int\<close> refuses
  gives the default.\<close>

definition args_get :: "(string \<times> string) list \<Rightarrow> string \<Rightarrow> string \<Rightarrow> string" where
  "args_get args key dflt = (case map_of args key of None \<Rightarrow> dflt | Some s \<Rightarrow> s)"

definition args_get_int :: "(string \<times> string) list \<Rightarrow> string \<Rightarrow> int \<Rightarrow> int" where
  "args_get_int args key dflt =
     (case map_of args key of
        None \<Rightarrow> dflt
      | Some s \<Rightarrow> (case py_int_str s of None \<Rightarrow> dflt | Some n \<Rightarrow> n))"

definition valid_sort_fields :: "string list" where
  "valid_sort_fields = [''id'', ''name'', ''category'', ''price'', ''quantity'', ''created_at'']"

text \<open>The query text up to \<^verbatim>\<open>ORDER BY\<close>, from the parameters of the request.\<close>

definition build_query :: "(string \<times> string) list \<Rightarrow> query" where
  "build_query args =
     (let category = map_of args ''category'';
          search = map_of args ''search'';
          sort_by = args_get args ''sort_by'' ''id'';
          sort_order = args_get args ''sort_order'' ''asc''
      in \<lparr>where_category =
             (case category of None \<Rightarrow> None | Some c \<Rightarrow> if c \<noteq> [] then Some c else None),
           where_like =
             (case search of
                None \<Rightarrow> None
              | Some s \<Rightarrow> if s \<noteq> [] then Some (''%'' @ s @ ''%'') else None),
           order_by =
             (if sort_by \<in> set valid_sort_fields \<and> lower sort_order \<in> set [''asc'', ''desc'']
              then Some (sort_by, if lower sort_order = ''asc'' then Asc else Desc)
              else None)\<rparr>)"

definition get_items_body ::
  "coercions \<Rightarrow> db \<Rightarrow> (string \<times> string) list \<Rightarrow> (exn + response) \<times> stmt list" where
  "get_items_body cv d args =
     (let pg = args_get_int args ''page'' 1;
          pp = min (args_get_int args ''per_page'' 10) 100;
          query = build_query args;
          offset = (pg - 1) * pp
      in case run_count cv d query of
           Inl e \<Rightarrow> (Inl e, [])
         | Inr count_all \<Rightarrow>
             (case run_select cv d query pp offset of
                Inl e \<Rightarrow> (Inl e, [SelectCount])
              | Inr items \<Rightarrow>
                  if pp = 0 then (Inl ZeroDivisionError, [SelectCount, SelectPage])
                  else (Inr (200,
                          Listing items
                            \<lparr>page = pg,
                             per_page = pp,
                             total_items = count_all,
                             total_pages = (count_all + pp - 1) div pp,
                             has_next = (pg < (count_all + pp - 1) div pp),
                             has_prev = (pg > 1)\<rparr>
                            \<lparr>filter_category = map_of args ''category'',
                             filter_search = map_of args ''search'',
                             filter_sort_by = args_get args ''sort_by'' ''id'',
                             filter_sort_order = args_get args ''sort_order'' ''asc''\<rparr>),
                        [SelectCount, SelectPage])))"

definition get_items ::
  "coercions \<Rightarrow> db \<Rightarrow> (string \<times> string) list \<Rightarrow> response \<times> stmt list" where
  "get_items cv d args = (case get_items_body cv d args of (r, t) \<Rightarrow> (respond r, t))"

subsection \<open>\<^verbatim>\<open>GET /items/<int:item_id>\<close>\<close>

text \<open>The route's converter gives a natural number of any size.\<close>

definition get_item_body :: "db \<Rightarrow> nat \<Rightarrow> (exn + response) \<times> stmt list" where
  "get_item_body d item_id =
     (case select_by_id d (int item_id) of
        Inl e \<Rightarrow> (Inl e, [])
      | Inr None \<Rightarrow> (Inr (404, Error ''Item not found''), [SelectItem])
      | Inr (Some item) \<Rightarrow> (Inr (200, Item item), [SelectItem]))"

definition get_item :: "db \<Rightarrow> nat \<Rightarrow> response \<times> stmt list" where
  "get_item d item_id = (case get_item_body d item_id of (r, t) \<Rightarrow> (respond r, t))"

subsection \<open>\<^verbatim>\<open>POST /items\<close>\<close>

definition create_item_body ::
  "coercions \<Rightarrow> string \<Rightarrow> db \<Rightarrow> json \<Rightarrow> (exn + response) \<times> db \<times> stmt list" where
  "create_item_body cv now d data =
     (if \<not> truthy data then (Inr (400, Error ''No JSON data provided''), d, [])
      else case validate_item_data data (Some [''name'']) of
        Inl e \<Rightarrow> (Inl e, d, [])
      | Inr errors \<Rightarrow>
          if errors \<noteq> [] then (Inr (400, ErrorDetails ''Validation failed'' errors), d, [])
          else (case and_then (py_getitem data ''name'') (\<lambda>v_name.
                     and_then (py_get data ''description'' JNull) (\<lambda>v_description.
                     and_then (py_get data ''category'' JNull) (\<lambda>v_category.
                     and_then (py_get data ''price'' JNull) (\<lambda>v_price.
                     and_then (py_get data ''quantity'' (JInt 0)) (\<lambda>v_quantity.
                       insert_item cv now d v_name v_description v_category v_price
                         v_quantity))))) of
                  Inl e \<Rightarrow> (Inl e, d, [])
                | Inr (d', item_id) \<Rightarrow>
                    (case select_by_id d' item_id of
                       Inl e \<Rightarrow> (Inl e, d', [InsertItem])
                     | Inr None \<Rightarrow> (Inl AttributeError, d', [InsertItem, SelectItem])
                     | Inr (Some item) \<Rightarrow>
                         (Inr (201, MessageItem ''Item created successfully'' item), d',
                          [InsertItem, SelectItem]))))"

definition create_item ::
  "coercions \<Rightarrow> string \<Rightarrow> db \<Rightarrow> json \<Rightarrow> response \<times> db \<times> stmt list" where
  "create_item cv now d data =
     (case create_item_body cv now d data of (r, d', t) \<Rightarrow> (respond r, d', t))"

subsection \<open>\<^verbatim>\<open>PUT /items/<int:item_id>\<close>\<close>

text \<open>The loop that builds \<^verbatim>\<open>update_fields\<close> and \<^verbatim>\<open>params\<close>, as one list of pairs.\<close>

fun collect_update_fields :: "json \<Rightarrow> string list \<Rightarrow> exn + (string \<times> json) list" where
  "collect_update_fields data [] = Inr []"
| "collect_update_fields data (field # others) =
     and_then (py_contains data field) (\<lambda>present.
     and_then (if present then and_then (py_getitem data field) (\<lambda>v. Inr [(field, v)])
               else Inr []) (\<lambda>this.
     and_then (collect_update_fields data others) (\<lambda>rest. Inr (this @ rest))))"

definition update_item_body ::
  "coercions \<Rightarrow> string \<Rightarrow> db \<Rightarrow> nat \<Rightarrow> json \<Rightarrow> (exn + response) \<times> db \<times> stmt list" where
  "update_item_body cv now d item_id data =
     (if \<not> truthy data then (Inr (400, Error ''No JSON data provided''), d, [])
      else case select_by_id d (int item_id) of
        Inl e \<Rightarrow> (Inl e, d, [])
      | Inr None \<Rightarrow> (Inr (404, Error ''Item not found''), d, [SelectItem])
      | Inr (Some existing_item) \<Rightarrow>
          (case validate_item_data data None of
             Inl e \<Rightarrow> (Inl e, d, [SelectItem])
           | Inr errors \<Rightarrow>
               if errors \<noteq> []
               then (Inr (400, ErrorDetails ''Validation failed'' errors), d, [SelectItem])
               else (case collect_update_fields data
                            [''name'', ''description'', ''category'', ''price'', ''quantity''] of
                       Inl e \<Rightarrow> (Inl e, d, [SelectItem])
                     | Inr update_fields \<Rightarrow>
                         if update_fields = []
                         then (Inr (400, Error ''No valid fields to update''), d, [SelectItem])
                         else (case exec_update cv now d update_fields (int item_id) of
                                 Inl e \<Rightarrow> (Inl e, d, [SelectItem])
                               | Inr d' \<Rightarrow>
                                   (case select_by_id d' (int item_id) of
                                      Inl e \<Rightarrow> (Inl e, d', [SelectItem, UpdateItem])
                                    | Inr None \<Rightarrow>
                                        (Inl AttributeError, d',
                                         [SelectItem, UpdateItem, SelectItem])
                                    | Inr (Some item) \<Rightarrow>
                                        (Inr (200, MessageItem ''Item updated successfully'' item),
                                         d', [SelectItem, UpdateItem, SelectItem]))))))"

definition update_item ::
  "coercions \<Rightarrow> string \<Rightarrow> db \<Rightarrow> nat \<Rightarrow> json \<Rightarrow> response \<times> db \<times> stmt list" where
  "update_item cv now d item_id data =
     (case update_item_body cv now d item_id data of (r, d', t) \<Rightarrow> (respond r, d', t))"

subsection \<open>\<^verbatim>\<open>DELETE /items/<int:item_id>\<close>\<close>

definition delete_item_body :: "db \<Rightarrow> nat \<Rightarrow> (exn + response) \<times> db \<times> stmt list" where
  "delete_item_body d item_id =
     (case select_by_id d (int item_id) of
        Inl e \<Rightarrow> (Inl e, d, [])
      | Inr None \<Rightarrow> (Inr (404, Error ''Item not found''), d, [SelectItem])
      | Inr (Some item) \<Rightarrow>
          (case exec_delete d (int item_id) of
             Inl e \<Rightarrow> (Inl e, d, [SelectItem])
           | Inr d' \<Rightarrow>
               (Inr (200, Message ''Item deleted successfully''), d', [SelectItem, DeleteItem])))"

definition delete_item :: "db \<Rightarrow> nat \<Rightarrow> response \<times> db \<times> stmt list" where
  "delete_item d item_id =
     (case delete_item_body d item_id of (r, d', t) \<Rightarrow> (respond r, d', t))"

subsection \<open>Stores and parameters to run the handlers on\<close>

text \<open>Coercions that find no number in any text and render every number as the empty
  text; the runs below never render a number.\<close>

definition plain :: coercions where
  "plain = \<lparr>text_of_num = (\<lambda>v. []), num_of_text = (\<lambda>s. None)\<rparr>"

text \<open>A store of \<open>n\<close> rows numbered from 1, as \<open>n\<close> creations of an item named
  \<^verbatim>\<open>Item\<close> leave it on an empty database.\<close>

definition numbered_db :: "int \<Rightarrow> db" where
  "numbered_db n =
     \<lparr>rows = map (\<lambda>i. \<lparr>row_id = i, name = SText ''Item'', description = SNull,
                        category = SNull, price = SNull, quantity = SInt 0,
                        created_at = SText ''2024-01-01 00:00:00'',
                        updated_at = SText ''2024-01-01 00:00:00''\<rparr>) [1..n],
      sqlite_sequence = n\<rparr>"

text \<open>The store \<^verbatim>\<open>init_db\<close> leaves of an empty database.\<close>

definition seeded_db :: "coercions \<Rightarrow> string \<Rightarrow> db" where
  "seeded_db cv now = snd (init_db cv now empty_db)"

section \<open>Facts about the model\<close>

lemma and_then_Inr_iff:
  "and_then m f = Inr y \<longleftrightarrow> (\<exists>x. m = Inr x \<and> f x = Inr y)"
  by (cases m) simp_all

lemma seeded_db_rows:
  "seeded_db cv now =
     \<lparr>rows =
        [\<lparr>row_id = 1, name = SText ''Laptop'',
           description = SText ''High-performance laptop for development'',
           category = SText ''Electronics'', price = SReal (Fin 999.99), quantity = SInt 5,
           created_at = SText now, updated_at = SText now\<rparr>,
         \<lparr>row_id = 2, name = SText ''Coffee Mug'',
           description = SText ''Ceramic mug for hot beverages'',
           category = SText ''Kitchen'', price = SReal (Fin 12.99), quantity = SInt 20,
           created_at = SText now, updated_at = SText now\<rparr>,
         \<lparr>row_id = 3, name = SText ''Python Book'',
           description = SText ''Learn Python programming'',
           category = SText ''Books'', price = SReal (Fin 39.99), quantity = SInt 15,
           created_at = SText now, updated_at = SText now\<rparr>,
         \<lparr>row_id = 4, name = SText ''Wireless Mouse'',
           description = SText ''Ergonomic wireless mouse'',
           category = SText ''Electronics'', price = SReal (Fin 29.99), quantity = SInt 30,
           created_at = SText now, updated_at = SText now\<rparr>,
         \<lparr>row_id = 5, name = SText ''Notebook'',
           description = SText ''Spiral-bound notebook'',
           category = SText ''Office'', price = SReal (Fin 4.99), quantity = SInt 50,
           created_at = SText now, updated_at = SText now\<rparr>],
      sqlite_sequence = 5\<rparr>"
  by (simp add: seeded_db_def init_db_def empty_db_def sample_items_def insert_item_def
      next_id_def bind_int_def)

subsection \<open>The scan of the table\<close>

text \<open>The clause raises on a row exactly when the pattern is too long and the row reaches
  the pattern; otherwise it says whether the row matches.\<close>

lemma sql_like_too_long:
  "like_pattern_limit < utf8_length pat \<Longrightarrow> sql_like cv pat v = Inl OperationalError"
  by (simp add: sql_like_def like_match_def)

lemma sql_like_within:
  "utf8_length pat \<le> like_pattern_limit \<Longrightarrow> \<exists>b. sql_like cv pat v = Inr b"
  by (simp add: sql_like_def like_match_def)

lemma where_clause_within:
  assumes "\<And>pat. where_like q = Some pat \<Longrightarrow> utf8_length pat \<le> like_pattern_limit"
  shows "where_clause cv q r = Inr (row_matches cv q r)"
proof (cases "where_like q")
  case None
  then show ?thesis by (simp add: row_matches_def where_clause_def)
next
  case (Some pat)
  from assms [OF Some] obtain a b
    where "sql_like cv pat (name r) = Inr a" "sql_like cv pat (description r) = Inr b"
    using sql_like_within by blast
  then show ?thesis using Some by (simp add: row_matches_def where_clause_def)
qed


lemma where_clause_raises_iff:
  "(where_clause cv q r = Inl e) =
     (e = OperationalError \<and>
      (\<exists>pat. where_like q = Some pat \<and> like_pattern_limit < utf8_length pat) \<and>
      (case where_category q of None \<Rightarrow> True | Some c \<Rightarrow> category r = SText c))"
proof (cases "\<exists>pat. where_like q = Some pat \<and> like_pattern_limit < utf8_length pat")
  case True
  then obtain pat where "where_like q = Some pat" "like_pattern_limit < utf8_length pat"
    by blast
  then show ?thesis
    by (auto simp: where_clause_def sql_like_too_long)
next
  case False
  then have "where_clause cv q r = Inr (row_matches cv q r)"
    by (intro where_clause_within) (auto simp: not_less)
  then show ?thesis using False by simp
qed

lemma scan_Inr:
  "scan cv q rs = Inr ms \<Longrightarrow> ms = filter (row_matches cv q) rs"
proof (induction rs arbitrary: ms)
  case Nil
  then show ?case by simp
next
  case (Cons r rs)
  from Cons.prems obtain m ms' where m: "where_clause cv q r = Inr m"
    and ms': "scan cv q rs = Inr ms'" and ms: "ms = (if m then r # ms' else ms')"
    by (auto simp: and_then_Inr_iff)
  from Cons.IH [OF ms'] m ms show ?case by (simp add: row_matches_def)
qed

lemma scan_within:
  assumes "\<And>pat. where_like q = Some pat \<Longrightarrow> utf8_length pat \<le> like_pattern_limit"
  shows "scan cv q rs = Inr (filter (row_matches cv q) rs)"
  by (induction rs) (simp_all add: where_clause_within [OF assms])

lemma scan_raises_iff:
  "(scan cv q rs = Inl e) =
     (e = OperationalError \<and>
      (\<exists>pat. where_like q = Some pat \<and> like_pattern_limit < utf8_length pat) \<and>
      (\<exists>r \<in> set rs. case where_category q of None \<Rightarrow> True | Some c \<Rightarrow> category r = SText c))"
proof (induction rs arbitrary: e)
  case Nil
  then show ?case by simp
next
  case (Cons r rs)
  have step: "(scan cv q (r # rs) = Inl e) =
      (where_clause cv q r = Inl e \<or>
       ((\<forall>e'. where_clause cv q r \<noteq> Inl e') \<and> scan cv q rs = Inl e))"
    by (cases "where_clause cv q r"; cases "scan cv q rs") auto
  show ?case
    unfolding step Cons.IH where_clause_raises_iff by auto
qed

lemma scan_cases:
  "scan cv q rs = Inr (filter (row_matches cv q) rs) \<or> scan cv q rs = Inl OperationalError"
proof (cases "scan cv q rs")
  case (Inl e)
  then show ?thesis using scan_raises_iff [of cv q rs e] by simp
next
  case (Inr ms)
  then show ?thesis using scan_Inr by blast
qed



subsection \<open>The listing\<close>

text \<open>What a listing that answers 200 holds, and when the listing answers 200.\<close>

lemma get_items_ok:
  assumes "fst (get_items cv d args) = (200, Listing items pgn fl)"
  shows "pgn = \<lparr>page = args_get_int args ''page'' 1,
                per_page = min (args_get_int args ''per_page'' 10) 100,
                total_items = int (length (filter (row_matches cv (build_query args)) (rows d))),
                total_pages =
                  (int (length (filter (row_matches cv (build_query args)) (rows d)))
                     + min (args_get_int args ''per_page'' 10) 100 - 1)
                    div min (args_get_int args ''per_page'' 10) 100,
                has_next =
                  (args_get_int args ''page'' 1 <
                   (int (length (filter (row_matches cv (build_query args)) (rows d)))
                      + min (args_get_int args ''per_page'' 10) 100 - 1)
                     div min (args_get_int args ''per_page'' 10) 100),
                has_prev = (args_get_int args ''page'' 1 > 1)\<rparr>"
    and "items = limit_offset (min (args_get_int args ''per_page'' 10) 100)
                   ((args_get_int args ''page'' 1 - 1) * min (args_get_int args ''per_page'' 10) 100)
                   (order_rows (order_by (build_query args))
                      (filter (row_matches cv (build_query args)) (rows d)))"
    and "min (args_get_int args ''per_page'' 10) 100 \<noteq> 0"
    and "scan cv (build_query args) (rows d)
           = Inr (filter (row_matches cv (build_query args)) (rows d))"
proof -
  have s: "scan cv (build_query args) (rows d)
             = Inr (filter (row_matches cv (build_query args)) (rows d))"
    using scan_cases [of cv "build_query args" "rows d"] assms
    unfolding get_items_def get_items_body_def respond_def internal_error_def run_count_def
      Let_def
    by auto
  show "scan cv (build_query args) (rows d)
           = Inr (filter (row_matches cv (build_query args)) (rows d))"
    by (rule s)
  show "pgn = \<lparr>page = args_get_int args ''page'' 1,
                per_page = min (args_get_int args ''per_page'' 10) 100,
                total_items = int (length (filter (row_matches cv (build_query args)) (rows d))),
                total_pages =
                  (int (length (filter (row_matches cv (build_query args)) (rows d)))
                     + min (args_get_int args ''per_page'' 10) 100 - 1)
                    div min (args_get_int args ''per_page'' 10) 100,
                has_next =
                  (args_get_int args ''page'' 1 <
                   (int (length (filter (row_matches cv (build_query args)) (rows d)))
                      + min (args_get_int args ''per_page'' 10) 100 - 1)
                     div min (args_get_int args ''per_page'' 10) 100),
                has_prev = (args_get_int args ''page'' 1 > 1)\<rparr>"
    and "items = limit_offset (min (args_get_int args ''per_page'' 10) 100)
                   ((args_get_int args ''page'' 1 - 1) * min (args_get_int args ''per_page'' 10) 100)
                   (order_rows (order_by (build_query args))
                      (filter (row_matches cv (build_query args)) (rows d)))"
    and "min (args_get_int args ''per_page'' 10) 100 \<noteq> 0"
    using assms
    unfolding get_items_def get_items_body_def respond_def internal_error_def run_count_def
      run_select_def bind_int_def Let_def s
    by (simp_all split: if_splits)
qed

lemma get_items_listing:
  assumes "pp = min (args_get_int args ''per_page'' 10) 100"
    and "pg = args_get_int args ''page'' 1"
    and "pp \<noteq> 0"
    and "bind_int pp = Inr pp"
    and "bind_int ((pg - 1) * pp) = Inr ((pg - 1) * pp)"
    and "scan cv (build_query args) (rows d) = Inr ms"
  shows "get_items cv d args =
     ((200,
       Listing
         (limit_offset pp ((pg - 1) * pp) (order_rows (order_by (build_query args)) ms))
         \<lparr>page = pg, per_page = pp,
          total_items = int (length ms),
          total_pages = (int (length ms) + pp - 1) div pp,
          has_next = (pg < (int (length ms) + pp - 1) div pp),
          has_prev = (pg > 1)\<rparr>
         \<lparr>filter_category = map_of args ''category'',
          filter_search = map_of args ''search'',
          filter_sort_by = args_get args ''sort_by'' ''id'',
          filter_sort_order = args_get args ''sort_order'' ''asc''\<rparr>),
      [SelectCount, SelectPage])"
  using assms(1-5)
  unfolding get_items_def get_items_body_def respond_def internal_error_def run_count_def
    run_select_def Let_def assms(6)
  by simp

lemma get_items_total:
  assumes "pp = min (args_get_int args ''per_page'' 10) 100"
    and "pg = args_get_int args ''page'' 1"
    and "pp \<noteq> 0"
    and "bind_int pp = Inr pp"
    and "bind_int ((pg - 1) * pp) = Inr ((pg - 1) * pp)"
    and "\<And>pat. where_like (build_query args) = Some pat \<Longrightarrow> utf8_length pat \<le> like_pattern_limit"
  shows "get_items cv d args =
     ((200,
       Listing
         (limit_offset pp ((pg - 1) * pp)
            (order_rows (order_by (build_query args))
               (filter (row_matches cv (build_query args)) (rows d))))
         \<lparr>page = pg, per_page = pp,
          total_items = int (length (filter (row_matches cv (build_query args)) (rows d))),
          total_pages =
            (int (length (filter (row_matches cv (build_query args)) (rows d))) + pp - 1) div pp,
          has_next =
            (pg < (int (length (filter (row_matches cv (build_query args)) (rows d))) + pp - 1)
                    div pp),
          has_prev = (pg > 1)\<rparr>
         \<lparr>filter_category = map_of args ''category'',
          filter_search = map_of args ''search'',
          filter_sort_by = args_get args ''sort_by'' ''id'',
          filter_sort_order = args_get args ''sort_order'' ''asc''\<rparr>),
      [SelectCount, SelectPage])"
  using assms(1-5) scan_within [of "build_query args" cv "rows d", OF assms(6)]
  by (rule get_items_listing)

text \<open>The count query raises exactly when the search pattern is too long and a row
  reaches it; the listing is then answered 500 and no statement has completed.\<close>

lemma get_items_count_raises:
  assumes "scan cv (build_query args) (rows d) = Inl e"
  shows "get_items_body cv d args = (Inl e, [])"
    and "get_items cv d args = ((500, Error ''Internal server error''), [])"
  using assms
  unfolding get_items_def get_items_body_def respond_def internal_error_def run_count_def Let_def
  by simp_all


subsection \<open>Evaluations on concrete inputs\<close>

lemma select_by_id_seeded_1:
  "select_by_id (seeded_db cv now) 1 = Inr (Some (hd (rows (seeded_db cv now))))"
  by (simp add: select_by_id_def bind_int_def seeded_db_rows)

lemma py_int_str_neg5: "py_int_str ''-5'' = Some (- 5)"
  by (simp add: py_int_str_def strip_def is_space_def is_digit_def digit_val_def)

lemma py_int_str_250: "py_int_str ''250'' = Some 250"
  by (simp add: py_int_str_def strip_def is_space_def is_digit_def digit_val_def)

lemma build_query_no_params:
  "map_of args ''category'' = None \<Longrightarrow> map_of args ''search'' = None \<Longrightarrow>
   map_of args ''sort_by'' = None \<Longrightarrow> map_of args ''sort_order'' = None \<Longrightarrow>
   build_query args = \<lparr>where_category = None, where_like = None, order_by = Some (''id'', Asc)\<rparr>"
  by (simp add: build_query_def args_get_def valid_sort_fields_def lower_def lower_char_def)

lemma order_seeded_by_id:
  "order_rows (Some (''id'', Asc)) (rows (seeded_db cv now)) = rows (seeded_db cv now)"
  by (simp add: order_rows_def seeded_db_rows column_value_def)

lemma float_abc: "\<not> py_float_str_ok ''abc''"
  by (simp add: py_float_str_ok_def strip_def is_space_def skip_sign_def lower_def
      lower_char_def float_number_ok_def skip_digitpart_def is_digit_def)

lemma validate_bad_price_create:
  "validate_item_data (JObj [(''name'', JStr ''A''), (''price'', JStr ''abc'')]) (Some [''name''])
     = Inr [price_msg]"
  by (simp add: validate_item_data_def check_price_def check_quantity_def float_abc)

lemma validate_bad_price_update:
  "validate_item_data (JObj [(''name'', JStr ''A''), (''price'', JStr ''abc'')]) None
     = Inr [price_msg]"
  by (simp add: validate_item_data_def check_price_def check_quantity_def float_abc)

lemma select_by_id_seeded_99:
  "select_by_id (seeded_db cv now) 99 = Inr None"
  by (simp add: select_by_id_def bind_int_def seeded_db_rows)

subsection \<open>Row ids\<close>

lemma foldr_max_ge: "s \<le> foldr max xs (s::int)"
  by (induction xs) auto

lemma foldr_max_ge_elem: "x \<in> set xs \<Longrightarrow> x \<le> foldr max xs (s::int)"
  by (induction xs) auto

lemma row_id_less_next_id: "r \<in> set (rows d) \<Longrightarrow> row_id r < next_id d"
  using foldr_max_ge_elem [of "row_id r" "map row_id (rows d)" "sqlite_sequence d"]
  by (simp add: next_id_def)

lemma sqlite_sequence_less_next_id: "sqlite_sequence d < next_id d"
  using foldr_max_ge [of "sqlite_sequence d" "map row_id (rows d)"]
  by (simp add: next_id_def)

lemma find_fresh_id: "List.find (\<lambda>r. row_id r = next_id d) (rows d) = None"
  using row_id_less_next_id [of _ d] by (fastforce simp: find_None_iff)

lemma find_append_right:
  "List.find P xs = None \<Longrightarrow> List.find P (xs @ ys) = List.find P ys"
  by (induction xs) (auto split: if_splits)

subsection \<open>Division rounded up\<close>

lemma ceil_div_pos_aux:
  assumes "0 < (b::int)"
  shows "- ((- a) div b) = (a + b - 1) div b"
proof -
  define q where "q = a div b"
  define r where "r = a mod b"
  have a: "a = q * b + r" by (simp add: q_def r_def)
  have r: "0 \<le> r" "r < b" using assms by (simp_all add: r_def)
  have neg: "(- a) div b = (if r = 0 then - q else - q - 1)"
    using assms zdiv_zminus1_eq_if [of b a] by (simp add: q_def r_def)
  have split: "(q * b + (r + b - 1)) div b = q + (r + b - 1) div b"
    using assms by (simp only: div_mult_self3) 
  have rest: "(r + b - 1) div b = (if r = 0 then 0 else 1)"
  proof (cases "r = 0")
    case True
    then show ?thesis using assms by (simp add: div_pos_pos_trivial)
  next
    case False
    have "(1 * b + (r - 1)) div b = 1 + (r - 1) div b"
      using assms by (simp only: div_mult_self3)
    moreover have "(r - 1) div b = 0" using r False by (simp add: div_pos_pos_trivial)
    moreover have "r + b - 1 = 1 * b + (r - 1)" by simp
    ultimately have "(r + b - 1) div b = 1" by (simp only: add_0_right)
    then show ?thesis using False by simp
  qed
  have e: "a + b - 1 = q * b + (r + b - 1)" by (simp add: a)
  have "(a + b - 1) div b = q + (if r = 0 then 0 else 1)"
    by (simp only: e split rest)
  moreover have "- ((- a) div b) = q + (if r = 0 then 0 else 1)"
    by (simp only: neg) simp
  ultimately show ?thesis by (simp only:)
qed

lemma ceil_div_pos:
  assumes "0 < (b::int)"
  shows "(a + b - 1) div b = \<lceil>(of_int a :: rat) / of_int b\<rceil>"
proof -
  have "\<lceil>(of_int a :: rat) / of_int b\<rceil> = - \<lfloor>(of_int (- a) :: rat) / of_int b\<rfloor>"
    by (simp add: ceiling_def)
  also have "\<dots> = - ((- a) div b)"
    by (simp only: floor_divide_of_int_eq)
  finally show ?thesis using ceil_div_pos_aux [OF assms, of a] by simp
qed

subsection \<open>Listings of the stores above\<close>

lemma length_order_rows: "length (order_rows ob rs) = length rs"
  by (simp add: order_rows_def split: option.splits prod.splits direction.splits)

lemma py_int_str_digits:
  "py_int_str ''1'' = Some 1" "py_int_str ''2'' = Some 2" "py_int_str ''3'' = Some 3"
  by (simp_all add: py_int_str_def strip_def is_space_def is_digit_def digit_val_def)

lemma filter_no_where:
  "filter (row_matches cv \<lparr>where_category = None, where_like = None, order_by = ob\<rparr>) rs = rs"
  by (simp add: row_matches_def where_clause_def)

lemma length_numbered_db: "length (rows (numbered_db 25)) = 25"
  by (simp add: numbered_db_def)

lemma get_items_numbered_page:
  assumes "py_int_str s = Some pg" and "1 \<le> pg" and "pg \<le> 3"
  shows "fst (get_items plain (numbered_db 25) [(''page'', s)]) =
     (200,
      Listing
        (limit_offset 10 ((pg - 1) * 10)
           (order_rows (Some (''id'', Asc)) (rows (numbered_db 25))))
        \<lparr>page = pg, per_page = 10, total_items = 25, total_pages = 3,
         has_next = (pg < 3), has_prev = (pg > 1)\<rparr>
        \<lparr>filter_category = None, filter_search = None,
         filter_sort_by = ''id'', filter_sort_order = ''asc''\<rparr>)"
proof -
  have q: "build_query [(''page'', s)]
             = \<lparr>where_category = None, where_like = None, order_by = Some (''id'', Asc)\<rparr>"
    by (simp add: build_query_no_params)
  show ?thesis
    using assms
    by (subst get_items_total [where pp = 10 and pg = pg])
      (simp_all add: args_get_int_def bind_int_def q filter_no_where
        run_count_def args_get_def length_numbered_db)
qed

subsection \<open>Validation of a dictionary\<close>

lemma check_required_name_obj:
  "check_required (JObj kvs) [''name''] =
     Inr (if (case map_of kvs ''name'' of None \<Rightarrow> True | Some v \<Rightarrow> \<not> truthy v)
          then [required_msg ''name''] else [])"
proof (cases "map_of kvs ''name''")
  case None
  then have "''name'' \<notin> fst ` set kvs" by (simp add: map_of_eq_None_iff)
  then show ?thesis using None by simp
next
  case (Some v)
  then have "''name'' \<in> fst ` set kvs"
    using map_of_eq_None_iff [of kvs "''name''"] by simp
  then show ?thesis using Some by simp
qed

lemma check_price_obj:
  "check_price (JObj kvs) =
     (case map_of kvs ''price'' of
        None \<Rightarrow> Inr []
      | Some v \<Rightarrow>
          if v = JNull then Inr []
          else (case py_float v of
                  Inr u \<Rightarrow> Inr []
                | Inl e \<Rightarrow> if e = ValueError \<or> e = TypeError then Inr [price_msg] else Inl e))"
proof (cases "map_of kvs ''price''")
  case None
  then have "''price'' \<notin> fst ` set kvs" by (simp add: map_of_eq_None_iff)
  then show ?thesis using None by (simp add: check_price_def)
next
  case (Some v)
  then have "''price'' \<in> fst ` set kvs"
    using map_of_eq_None_iff [of kvs "''price''"] by simp
  then show ?thesis using Some
    by (simp add: check_price_def split: json.splits sum.splits exn.splits)
qed

lemma check_quantity_obj:
  "check_quantity (JObj kvs) =
     (case map_of kvs ''quantity'' of
        None \<Rightarrow> Inr []
      | Some v \<Rightarrow>
          if v = JNull then Inr []
          else (case py_int v of
                  Inr u \<Rightarrow> Inr []
                | Inl e \<Rightarrow> if e = ValueError \<or> e = TypeError then Inr [quantity_msg] else Inl e))"
proof (cases "map_of kvs ''quantity''")
  case None
  then have "''quantity'' \<notin> fst ` set kvs" by (simp add: map_of_eq_None_iff)
  then show ?thesis using None by (simp add: check_quantity_def)
next
  case (Some v)
  then have "''quantity'' \<in> fst ` set kvs"
    using map_of_eq_None_iff [of kvs "''quantity''"] by simp
  then show ?thesis using Some
    by (simp add: check_quantity_def split: json.splits sum.splits exn.splits)
qed

lemma validate_default: "validate_item_data data None = validate_item_data data (Some [''name''])"
  by (simp add: validate_item_data_def)

lemma validate_obj:
  assumes "validate_item_data (JObj kvs) (Some [''name'']) = Inr errors"
  shows "errors =
     (if (case map_of kvs ''name'' of None \<Rightarrow> True | Some v \<Rightarrow> \<not> truthy v)
      then [required_msg ''name''] else []) @
     (if \<exists>v. map_of kvs ''price'' = Some v \<and> v \<noteq> JNull \<and>
            (py_float v = Inl ValueError \<or> py_float v = Inl TypeError)
      then [price_msg] else []) @
     (if \<exists>v. map_of kvs ''quantity'' = Some v \<and> v \<noteq> JNull \<and>
            (py_int v = Inl ValueError \<or> py_int v = Inl TypeError)
      then [quantity_msg] else [])"
proof -
  from assms obtain e2 e3 where
    p: "check_price (JObj kvs) = Inr e2" and q: "check_quantity (JObj kvs) = Inr e3"
    and e: "errors = (if (case map_of kvs ''name'' of None \<Rightarrow> True | Some v \<Rightarrow> \<not> truthy v)
                      then [required_msg ''name''] else []) @ e2 @ e3"
    unfolding validate_item_data_def
    by (auto simp: check_required_name_obj and_then_Inr_iff simp del: check_required.simps)
  have e2: "e2 = (if \<exists>v. map_of kvs ''price'' = Some v \<and> v \<noteq> JNull \<and>
            (py_float v = Inl ValueError \<or> py_float v = Inl TypeError)
      then [price_msg] else [])"
    using p unfolding check_price_obj
    by (auto split: option.splits if_splits sum.splits)
  have e3: "e3 = (if \<exists>v. map_of kvs ''quantity'' = Some v \<and> v \<noteq> JNull \<and>
            (py_int v = Inl ValueError \<or> py_int v = Inl TypeError)
      then [quantity_msg] else [])"
    using q unfolding check_quantity_obj
    by (auto split: option.splits if_splits sum.splits)
  show ?thesis by (simp only: e e2 e3)
qed

lemma validate_both_refused:
  assumes "map_of kvs ''price'' = Some p" "p \<noteq> JNull"
    "py_float p = Inl ValueError \<or> py_float p = Inl TypeError"
    and "map_of kvs ''quantity'' = Some q" "q \<noteq> JNull"
    "py_int q = Inl ValueError \<or> py_int q = Inl TypeError"
  shows "validate_item_data (JObj kvs) (Some [''name'']) =
     Inr ((if (case map_of kvs ''name'' of None \<Rightarrow> True | Some v \<Rightarrow> \<not> truthy v)
           then [required_msg ''name''] else []) @ [price_msg, quantity_msg])"
  using assms unfolding validate_item_data_def
  by (auto simp: check_required_name_obj check_price_obj check_quantity_obj
      simp del: check_required.simps)

lemma float_inf: "py_float_str_ok ''inf''"
  by (simp add: py_float_str_ok_def strip_def is_space_def skip_sign_def lower_def
      lower_char_def)

lemma int_x: "py_int_str ''x'' = None"
  by (simp add: py_int_str_def strip_def is_space_def is_digit_def)

lemma validate_bad_both:
  "validate_item_data
     (JObj [(''name'', JStr ''A''), (''price'', JStr ''abc''), (''quantity'', JStr ''x'')])
     (Some [''name'']) = Inr [price_msg, quantity_msg]"
  by (simp add: validate_item_data_def check_price_def check_quantity_def float_abc int_x)

subsection \<open>Patterns, order and slices\<close>













lemma utf8_length_append: "utf8_length (s @ t) = utf8_length s + utf8_length t"
  by (simp add: utf8_length_def)

lemma utf8_length_Nil: "utf8_length [] = 0"
  by (simp add: utf8_length_def)

lemma utf8_length_Cons:
  "utf8_length (c # s) = (if (of_char c :: nat) < 128 then 1 else 2) + utf8_length s"
  by (simp add: utf8_length_def)

lemma utf8_length_replicate_ascii:
  "(of_char c :: nat) < 128 \<Longrightarrow> utf8_length (replicate n c) = n"
  by (induction n) (simp_all add: utf8_length_def)









lemma build_query_parts:
  "where_category (build_query args) =
     (case map_of args ''category'' of None \<Rightarrow> None | Some c \<Rightarrow> if c \<noteq> [] then Some c else None)"
  "where_like (build_query args) =
     (case map_of args ''search'' of
        None \<Rightarrow> None | Some s \<Rightarrow> if s \<noteq> [] then Some (''%'' @ s @ ''%'') else None)"
  "order_by (build_query args) =
     (if args_get args ''sort_by'' ''id'' \<in> set valid_sort_fields \<and>
         lower (args_get args ''sort_order'' ''asc'') \<in> set [''asc'', ''desc'']
      then Some (args_get args ''sort_by'' ''id'',
                 if lower (args_get args ''sort_order'' ''asc'') = ''asc'' then Asc else Desc)
      else None)"
  by (simp_all add: build_query_def Let_def)


lemma get_items_seeded_plain:
  assumes "args_get_int args ''page'' 1 = 1" and "args_get_int args ''per_page'' 10 = 10"
    and "\<And>pat. where_like (build_query args) = Some pat \<Longrightarrow> utf8_length pat \<le> like_pattern_limit"
  shows "fst (get_items plain (seeded_db plain now) args) =
     (200,
      Listing
        (limit_offset 10 0
           (order_rows (order_by (build_query args))
              (filter (row_matches plain (build_query args)) (rows (seeded_db plain now)))))
        \<lparr>page = 1, per_page = 10,
         total_items =
           int (length (filter (row_matches plain (build_query args)) (rows (seeded_db plain now)))),
         total_pages =
           (int (length (filter (row_matches plain (build_query args)) (rows (seeded_db plain now))))
              + 9) div 10,
         has_next =
           (1 < (int (length (filter (row_matches plain (build_query args))
                                (rows (seeded_db plain now)))) + 9) div 10),
         has_prev = False\<rparr>
        \<lparr>filter_category = map_of args ''category'', filter_search = map_of args ''search'',
         filter_sort_by = args_get args ''sort_by'' ''id'',
         filter_sort_order = args_get args ''sort_order'' ''asc''\<rparr>)"
  using assms(1,2)
  by (subst get_items_total [where pp = 10 and pg = 1, OF _ _ _ _ _ assms(3)])
    (simp_all add: bind_int_def add.commute)

lemma lower_words: "lower ''DESC'' = ''desc''" "lower ''desc'' = ''desc''" "lower ''asc'' = ''asc''"
  by code_simp+





lemma get_items_seeded_unfiltered:
  assumes "map_of args ''category'' = None" and "map_of args ''search'' = None"
    and "map_of args ''sort_by'' = None" and "map_of args ''sort_order'' = None"
    and "args_get_int args ''page'' 1 = 1"
    and "min (args_get_int args ''per_page'' 10) 100 = pp"
    and "pp \<noteq> 0" and "- (2 ^ 63) \<le> pp"
  shows "fst (get_items plain (seeded_db plain now) args) =
     (200,
      Listing (limit_offset pp 0 (rows (seeded_db plain now)))
        \<lparr>page = 1, per_page = pp, total_items = 5, total_pages = (4 + pp) div pp,
         has_next = (1 < (4 + pp) div pp), has_prev = False\<rparr>
        \<lparr>filter_category = None, filter_search = None,
         filter_sort_by = ''id'', filter_sort_order = ''asc''\<rparr>)"
proof -
  have q: "build_query args
             = \<lparr>where_category = None, where_like = None, order_by = Some (''id'', Asc)\<rparr>"
    using assms(1-4) by (rule build_query_no_params)
  have n: "length (rows (seeded_db plain now)) = 5"
    by (simp add: seeded_db_rows)
  have b: "bind_int pp = Inr pp"
    using assms(6,8) by (auto simp: bind_int_def)
  show ?thesis
    using assms b
    by (subst get_items_total [where pp = pp and pg = 1])
      (simp_all add: q filter_no_where order_seeded_by_id run_count_def args_get_def n
        bind_int_def add.commute)
qed

subsection \<open>Searches with a NUL character and searches beyond the limit\<close>

text \<open>On the seeded store: the search that is one NUL character has the pattern \<^verbatim>\<open>%\<close>
  and returns every row; a search of 49999 letters has a pattern of 50001 bytes and is
  answered 500 before any statement completes, but is answered with an empty page when no
  row has the category asked for.\<close>

lemma like_nul_seeded:
  "filter (row_matches plain
       \<lparr>where_category = None, where_like = Some (''%'' @ [CHR 0x00] @ ''%''), order_by = ob\<rparr>)
     (rows (seeded_db plain now)) = rows (seeded_db plain now)"
  by (simp add: row_matches_def where_clause_def sql_like_def like_match_def utf8_length_def
      like_pattern_limit_def c_string_def seeded_db_rows)

lemma get_items_search_nul:
  "fst (get_items plain (seeded_db plain now) [(''search'', [CHR 0x00])]) =
     (200,
      Listing (rows (seeded_db plain now))
        \<lparr>page = 1, per_page = 10, total_items = 5, total_pages = 1,
         has_next = False, has_prev = False\<rparr>
        \<lparr>filter_category = None, filter_search = Some [CHR 0x00],
         filter_sort_by = ''id'', filter_sort_order = ''asc''\<rparr>)"
proof -
  have q: "build_query [(''search'', [CHR 0x00])] =
      \<lparr>where_category = None, where_like = Some (''%'' @ [CHR 0x00] @ ''%''),
       order_by = Some (''id'', Asc)\<rparr>"
    by (simp add: build_query_def args_get_def valid_sort_fields_def lower_words)
  have n: "length (rows (seeded_db plain now)) = 5" by (simp add: seeded_db_rows)
  show ?thesis
    by (subst get_items_seeded_plain)
      (simp_all add: args_get_int_def q like_nul_seeded [simplified] order_seeded_by_id
        n limit_offset_def args_get_def utf8_length_def like_pattern_limit_def)
qed

lemma long_search:
  "utf8_length (''%'' @ replicate 49999 CHR ''a'' @ ''%'') = 50001"
  "like_pattern_limit < utf8_length (''%'' @ replicate 49999 CHR ''a'' @ ''%'')"
  "replicate 49999 CHR ''a'' \<noteq> []"
  by (simp_all add: utf8_length_append utf8_length_replicate_ascii utf8_length_Cons
      utf8_length_Nil like_pattern_limit_def)

lemma get_items_search_too_long:
  "get_items plain (seeded_db plain now) [(''search'', replicate 49999 CHR ''a'')] =
     ((500, Error ''Internal server error''), [])"
proof -
  let ?args = "[(''search'', replicate 49999 CHR ''a'')]"
  let ?d = "seeded_db plain now"
  have q: "where_like (build_query ?args) = Some (''%'' @ replicate 49999 CHR ''a'' @ ''%'')"
    "where_category (build_query ?args) = None"
    using long_search(3) by (simp_all add: build_query_parts)
  have "rows ?d \<noteq> []" by (simp add: seeded_db_rows)
  then have "hd (rows ?d) \<in> set (rows ?d)" by simp
  then have "\<exists>r \<in> set (rows ?d).
      case where_category (build_query ?args) of None \<Rightarrow> True | Some c \<Rightarrow> category r = SText c"
    unfolding q by auto
  with q(1) long_search(2) have "scan plain (build_query ?args) (rows ?d) = Inl OperationalError"
    unfolding scan_raises_iff by blast
  then show ?thesis by (rule get_items_count_raises(2))
qed


subsection \<open>The update that passes validation names the item\<close>

lemma check_required_name_Inr:
  assumes "check_required data [''name''] = Inr []"
  shows "\<exists>kvs v. data = JObj kvs \<and> map_of kvs ''name'' = Some v"
proof (cases data)
  case (JObj kvs)
  then show ?thesis
    using assms check_required_name_obj [of kvs]
    by (cases "map_of kvs ''name''") (simp_all del: check_required.simps split: if_splits)
next
  case (JStr s)
  then show ?thesis using assms by (cases "is_substring ''name'' s") simp_all
next
  case (JList xs)
  then show ?thesis using assms by (cases "JStr ''name'' \<in> set xs") simp_all
qed (use assms in simp_all)


lemma validate_passed_has_name:
  assumes "validate_item_data data None = Inr []"
  shows "\<exists>kvs v. data = JObj kvs \<and> map_of kvs ''name'' = Some v"
proof -
  from assms obtain e1 e2 e3 where "check_required data [''name''] = Inr e1"
    and "e1 @ e2 @ e3 = []"
    unfolding validate_item_data_def
    by (auto simp: and_then_Inr_iff simp del: check_required.simps)
  then have "check_required data [''name''] = Inr []" by simp
  then show ?thesis by (rule check_required_name_Inr)
qed

lemma collect_with_name:
  assumes "map_of kvs ''name'' = Some v"
  shows "collect_update_fields (JObj kvs) (''name'' # others) \<noteq> Inr []"
proof -
  from assms have "''name'' \<in> fst ` set kvs"
    using map_of_eq_None_iff [of kvs "''name''"] by simp
  then show ?thesis using assms
    by (cases "collect_update_fields (JObj kvs) others") simp_all
qed

lemma update_item_body_no_fields:
  "fst (update_item_body cv now d item_id data) \<noteq> Inr (400, Error ''No valid fields to update'')"
proof (cases "validate_item_data data None")
  case (Inl e)
  then show ?thesis
    by (simp add: update_item_body_def split: sum.splits option.splits)
next
  case (Inr errors)
  show ?thesis
  proof (cases "errors = []")
    case False
    then show ?thesis using Inr
      by (simp add: update_item_body_def split: sum.splits option.splits)
  next
    case True
    then obtain kvs v where data: "data = JObj kvs" "map_of kvs ''name'' = Some v"
      using Inr validate_passed_has_name by blast
    have c: "collect_update_fields data
               [''name'', ''description'', ''category'', ''price'', ''quantity''] \<noteq> Inr []"
      unfolding data(1) by (rule collect_with_name [OF data(2)])
    show ?thesis
      using Inr True c
      by (simp add: update_item_body_def split: sum.splits option.splits
          del: collect_update_fields.simps)
  qed
qed

section \<open>The claims\<close>

text \<open>
  Claim C1 says that an update whose body holds only a price succeeds. The code does not do
  that: \<^verbatim>\<open>update_item\<close> calls \<^verbatim>\<open>validate_item_data(data)\<close> without
  \<^verbatim>\<open>required_fields\<close>, whose default is \<^verbatim>\<open>['name']\<close>, so on every existing id the body
  \<^verbatim>\<open>{"price": 5.0}\<close> is answered 400 with the one detail that the name is required, after
  the look-up of the id, and the store is left as it was. That a body without a name was
  meant to pass shows in the handler itself: its loop asks of every field, the name
  included, whether the body holds it, and its answer \<^verbatim>\<open>No valid fields to update\<close> is for
  a body that holds none of them, which validation never lets through
  (\<open>update_item_body_no_fields\<close>).
\<close>

theorem update_price_only_rejected:
  assumes "select_by_id d (int item_id) = Inr (Some r)"
  shows "update_item cv now d item_id (JObj [(''price'', JFloat (Real (Fin 5)))])
           = ((400, ErrorDetails ''Validation failed'' [required_msg ''name'']), d, [SelectItem])"
  using assms
  by (simp add: update_item_def update_item_body_def validate_item_data_def check_price_def
      check_quantity_def respond_def)

theorem update_price_only_rejected_witness:
  "select_by_id (seeded_db plain ''2024-01-01 00:00:00'') (int 1)
      = Inr (Some (hd (rows (seeded_db plain ''2024-01-01 00:00:00'')))) \<and>
   update_item plain ''2024-06-01 12:00:00'' (seeded_db plain ''2024-01-01 00:00:00'') 1
       (JObj [(''price'', JFloat (Real (Fin 5)))])
     = ((400, ErrorDetails ''Validation failed'' [required_msg ''name'']),
        seeded_db plain ''2024-01-01 00:00:00'', [SelectItem])"
proof -
  have h: "select_by_id (seeded_db plain ''2024-01-01 00:00:00'') (int 1)
      = Inr (Some (hd (rows (seeded_db plain ''2024-01-01 00:00:00''))))"
    by (simp add: select_by_id_seeded_1)
  from update_price_only_rejected [OF h] h show ?thesis by simp
qed

text \<open>
  Claim C2, as amended. The source caps \<^verbatim>\<open>per_page\<close> with \<^verbatim>\<open>min(..., 100)\<close> and has no
  lower bound. In every listing that is answered with a page, the \<^verbatim>\<open>per_page\<close> of the
  pagination data is the smaller of 100 and the requested value (10 when the parameter is
  absent or is no integer), and it is the limit of the slice of the matching rows that is
  returned. A value above 100 becomes 100; a value below 1 is kept as it is (and is never 0,
  which is answered 500); so the value lies between 1 and 100 when the requested value is at
  least 1, and then at most that many items are returned.
\<close>

theorem per_page_effective:
  assumes "fst (get_items cv d args) = (200, Listing items pgn fl)"
  shows "per_page pgn = min (args_get_int args ''per_page'' 10) 100 \<and>
         per_page pgn \<le> 100 \<and> per_page pgn \<noteq> 0 \<and>
         (map_of args ''per_page'' = None \<longrightarrow> per_page pgn = 10) \<and>
         (100 < args_get_int args ''per_page'' 10 \<longrightarrow> per_page pgn = 100) \<and>
         (args_get_int args ''per_page'' 10 < 1 \<longrightarrow> per_page pgn = args_get_int args ''per_page'' 10) \<and>
         (1 \<le> args_get_int args ''per_page'' 10 \<longrightarrow>
            1 \<le> per_page pgn \<and> int (length items) \<le> per_page pgn) \<and>
         items = limit_offset (per_page pgn) ((page pgn - 1) * per_page pgn)
                   (order_rows (order_by (build_query args))
                      (filter (row_matches cv (build_query args)) (rows d)))"
proof -
  note ok = get_items_ok [OF assms]
  have pp: "per_page pgn = min (args_get_int args ''per_page'' 10) 100"
    and pg: "page pgn = args_get_int args ''page'' 1"
    by (simp_all add: ok(1))
  have it: "items = limit_offset (per_page pgn) ((page pgn - 1) * per_page pgn)
                   (order_rows (order_by (build_query args))
                      (filter (row_matches cv (build_query args)) (rows d)))"
    using ok(2) by (simp add: pp pg)
  have len: "1 \<le> per_page pgn \<Longrightarrow> int (length items) \<le> per_page pgn"
    by (subst it) (simp add: limit_offset_def)
  have dflt: "map_of args ''per_page'' = None \<Longrightarrow> per_page pgn = 10"
    by (simp add: pp args_get_int_def)
  from pp ok(3) it len dflt show ?thesis by auto
qed

theorem per_page_effective_witness:
  "fst (get_items plain (seeded_db plain ''2024-01-01 00:00:00'') [(''per_page'', ''250'')])
     = (200,
        Listing (rows (seeded_db plain ''2024-01-01 00:00:00''))
          \<lparr>page = 1, per_page = 100, total_items = 5, total_pages = 1,
           has_next = False, has_prev = False\<rparr>
          \<lparr>filter_category = None, filter_search = None,
           filter_sort_by = ''id'', filter_sort_order = ''asc''\<rparr>) \<and>
   args_get_int [(''per_page'', ''250'')] ''per_page'' 10 = 250 \<and>
   fst (get_items plain (seeded_db plain ''2024-01-01 00:00:00'') [])
     = (200,
        Listing (rows (seeded_db plain ''2024-01-01 00:00:00''))
          \<lparr>page = 1, per_page = 10, total_items = 5, total_pages = 1,
           has_next = False, has_prev = False\<rparr>
          \<lparr>filter_category = None, filter_search = None,
           filter_sort_by = ''id'', filter_sort_order = ''asc''\<rparr>) \<and>
   map_of ([] :: (string \<times> string) list) ''per_page'' = None \<and>
   fst (get_items plain (seeded_db plain ''2024-01-01 00:00:00'') [(''per_page'', ''-5'')])
     = (200,
        Listing (rows (seeded_db plain ''2024-01-01 00:00:00''))
          \<lparr>page = 1, per_page = - 5, total_items = 5, total_pages = 0,
           has_next = False, has_prev = False\<rparr>
          \<lparr>filter_category = None, filter_search = None,
           filter_sort_by = ''id'', filter_sort_order = ''asc''\<rparr>) \<and>
   args_get_int [(''per_page'', ''-5'')] ''per_page'' 10 = - 5 \<and>
   int (length (rows (seeded_db plain ''2024-01-01 00:00:00''))) \<le> 10"
proof -
  let ?d = "seeded_db plain ''2024-01-01 00:00:00''"
  have n: "length (rows ?d) = 5"
    by (simp add: seeded_db_rows)
  have r: "args_get_int [(''per_page'', ''250'')] ''per_page'' 10 = 250"
    "args_get_int [(''per_page'', ''-5'')] ''per_page'' 10 = - 5"
    by (simp_all add: args_get_int_def py_int_str_250 py_int_str_neg5)
  have h1: "fst (get_items plain ?d [(''per_page'', ''250'')])
     = (200,
        Listing (rows ?d)
          \<lparr>page = 1, per_page = 100, total_items = 5, total_pages = 1,
           has_next = False, has_prev = False\<rparr>
          \<lparr>filter_category = None, filter_search = None,
           filter_sort_by = ''id'', filter_sort_order = ''asc''\<rparr>)"
    by (subst get_items_seeded_unfiltered [where pp = 100])
      (simp_all add: args_get_int_def py_int_str_250 py_int_str_neg5 limit_offset_def n)
  have h2: "fst (get_items plain ?d [])
     = (200,
        Listing (rows ?d)
          \<lparr>page = 1, per_page = 10, total_items = 5, total_pages = 1,
           has_next = False, has_prev = False\<rparr>
          \<lparr>filter_category = None, filter_search = None,
           filter_sort_by = ''id'', filter_sort_order = ''asc''\<rparr>)"
    by (subst get_items_seeded_unfiltered [where pp = 10])
      (simp_all add: args_get_int_def limit_offset_def n)
  have h3: "fst (get_items plain ?d [(''per_page'', ''-5'')])
     = (200,
        Listing (rows ?d)
          \<lparr>page = 1, per_page = - 5, total_items = 5, total_pages = 0,
           has_next = False, has_prev = False\<rparr>
          \<lparr>filter_category = None, filter_search = None,
           filter_sort_by = ''id'', filter_sort_order = ''asc''\<rparr>)"
    by (subst get_items_seeded_unfiltered [where pp = "- 5"])
      (simp_all add: args_get_int_def py_int_str_250 py_int_str_neg5 limit_offset_def n)
  from per_page_effective [OF h1] per_page_effective [OF h2] per_page_effective [OF h3]
    h1 h2 h3 r n
  show ?thesis by simp
qed

text \<open>The claim as it was stated fails: with \<^verbatim>\<open>per_page=-5\<close> the pagination data say
  \<open>- 5\<close>, and all five rows are returned.\<close>

theorem per_page_negative_counterexample:
  "get_items plain (seeded_db plain ''2024-01-01 00:00:00'') [(''per_page'', ''-5'')]
     = ((200,
         Listing (rows (seeded_db plain ''2024-01-01 00:00:00''))
           \<lparr>page = 1, per_page = - 5, total_items = 5, total_pages = 0,
            has_next = False, has_prev = False\<rparr>
           \<lparr>filter_category = None, filter_search = None,
            filter_sort_by = ''id'', filter_sort_order = ''asc''\<rparr>),
        [SelectCount, SelectPage])"
proof -
  have q: "build_query [(''per_page'', ''-5'')]
             = \<lparr>where_category = None, where_like = None, order_by = Some (''id'', Asc)\<rparr>"
    by (simp add: build_query_no_params)
  have n: "length (rows (seeded_db plain ''2024-01-01 00:00:00'')) = 5"
    by (simp add: seeded_db_rows)
  show ?thesis
    by (subst get_items_total [where pp = "- 5" and pg = 1])
      (simp_all add: args_get_int_def py_int_str_neg5 bind_int_def q filter_no_where
        order_seeded_by_id limit_offset_def args_get_def n)
qed

text \<open>
  Claim C3, as amended. A creation whose body is empty or fails validation is answered 400
  before any statement runs, and the store is unchanged. An update with an empty body
  likewise. An update whose body fails validation has first looked the id up: it is
  answered 404 when the id is absent, 400 with the errors when it is present (and 500 when
  the id does not fit 64 bits); that look-up is its only statement, nothing is written, and
  the store is unchanged.
\<close>

theorem validation_failure_leaves_store:
  "(\<not> truthy data \<longrightarrow>
      create_item cv now d data = ((400, Error ''No JSON data provided''), d, []) \<and>
      update_item cv now d item_id data = ((400, Error ''No JSON data provided''), d, [])) \<and>
   (truthy data \<and> validate_item_data data (Some [''name'']) = Inr errors \<and> errors \<noteq> [] \<longrightarrow>
      create_item cv now d data = ((400, ErrorDetails ''Validation failed'' errors), d, [])) \<and>
   (truthy data \<and> validate_item_data data None = Inr errors \<and> errors \<noteq> [] \<longrightarrow>
      update_item cv now d item_id data =
        (case select_by_id d (int item_id) of
           Inl e \<Rightarrow> ((500, Error ''Internal server error''), d, [])
         | Inr None \<Rightarrow> ((404, Error ''Item not found''), d, [SelectItem])
         | Inr (Some existing) \<Rightarrow>
             ((400, ErrorDetails ''Validation failed'' errors), d, [SelectItem])))"
  by (simp add: create_item_def create_item_body_def update_item_def update_item_body_def
      respond_def internal_error_def split: sum.splits option.splits)

theorem validation_failure_leaves_store_witness:
  "truthy (JObj [(''name'', JStr ''A''), (''price'', JStr ''abc'')]) \<and>
   validate_item_data (JObj [(''name'', JStr ''A''), (''price'', JStr ''abc'')]) (Some [''name''])
     = Inr [price_msg] \<and>
   validate_item_data (JObj [(''name'', JStr ''A''), (''price'', JStr ''abc'')]) None
     = Inr [price_msg] \<and>
   [price_msg] \<noteq> [] \<and>
   create_item plain ''2024-06-01 12:00:00'' (seeded_db plain ''2024-01-01 00:00:00'')
       (JObj [(''name'', JStr ''A''), (''price'', JStr ''abc'')])
     = ((400, ErrorDetails ''Validation failed'' [price_msg]),
        seeded_db plain ''2024-01-01 00:00:00'', []) \<and>
   update_item plain ''2024-06-01 12:00:00'' (seeded_db plain ''2024-01-01 00:00:00'') 1
       (JObj [(''name'', JStr ''A''), (''price'', JStr ''abc'')])
     = ((400, ErrorDetails ''Validation failed'' [price_msg]),
        seeded_db plain ''2024-01-01 00:00:00'', [SelectItem]) \<and>
   \<not> truthy (JObj []) \<and>
   create_item plain ''2024-06-01 12:00:00'' (seeded_db plain ''2024-01-01 00:00:00'') (JObj [])
     = ((400, Error ''No JSON data provided''), seeded_db plain ''2024-01-01 00:00:00'', [])"
  using validation_failure_leaves_store [of "JObj [(''name'', JStr ''A''), (''price'', JStr ''abc'')]"
      plain "''2024-06-01 12:00:00''" "seeded_db plain ''2024-01-01 00:00:00''" 1 "[price_msg]"]
    validation_failure_leaves_store [of "JObj []"
      plain "''2024-06-01 12:00:00''" "seeded_db plain ''2024-01-01 00:00:00''" 1 "[]"]
    select_by_id_seeded_1 [of plain "''2024-01-01 00:00:00''"]
  by (simp add: validate_bad_price_create validate_bad_price_update)

text \<open>The claim as it was stated fails for updates: on an existing id the 400 comes after a
  read of the table, and on an absent id the answer is 404.\<close>

theorem update_reads_before_validating_counterexample:
  "update_item plain ''2024-06-01 12:00:00'' (seeded_db plain ''2024-01-01 00:00:00'') 1
       (JObj [(''name'', JStr ''A''), (''price'', JStr ''abc'')])
     = ((400, ErrorDetails ''Validation failed'' [price_msg]),
        seeded_db plain ''2024-01-01 00:00:00'', [SelectItem]) \<and>
   update_item plain ''2024-06-01 12:00:00'' (seeded_db plain ''2024-01-01 00:00:00'') 99
       (JObj [(''name'', JStr ''A''), (''price'', JStr ''abc'')])
     = ((404, Error ''Item not found''), seeded_db plain ''2024-01-01 00:00:00'', [SelectItem])"
  using select_by_id_seeded_1 [of plain "''2024-01-01 00:00:00''"]
    select_by_id_seeded_99 [of plain "''2024-01-01 00:00:00''"]
  by (simp add: update_item_def update_item_body_def respond_def validate_bad_price_update)

text \<open>
  Claim C4. In every listing that is answered with a page and whose \<^verbatim>\<open>per_page\<close> is at
  least 1, the pagination data hold the number of rows that match the filters, the number
  of pages is that number divided by \<^verbatim>\<open>per_page\<close> and rounded up, \<^verbatim>\<open>has_next\<close> says
  that the page is before the last one and \<^verbatim>\<open>has_prev\<close> that it is after the first. With
  25 matching rows and 10 to a page there are 3 pages; pages 1 and 2 return 10 items and
  have a next page, page 3 returns 5 and has none, and among the pages from 1 on exactly
  pages 1 and 2 have a next page.
\<close>

theorem pagination_metadata:
  assumes "fst (get_items cv d args) = (200, Listing items pgn fl)" and "1 \<le> per_page pgn"
  shows "total_items pgn = int (length (filter (row_matches cv (build_query args)) (rows d))) \<and>
         total_pages pgn = \<lceil>(of_int (total_items pgn) :: rat) / of_int (per_page pgn)\<rceil> \<and>
         has_next pgn = (page pgn < total_pages pgn) \<and>
         has_prev pgn = (page pgn > 1) \<and>
         (total_items pgn = 25 \<and> per_page pgn = 10 \<longrightarrow>
            total_pages pgn = 3 \<and>
            (page pgn = 1 \<or> page pgn = 2 \<longrightarrow> length items = 10 \<and> has_next pgn) \<and>
            (page pgn = 3 \<longrightarrow> length items = 5 \<and> \<not> has_next pgn) \<and>
            (1 \<le> page pgn \<longrightarrow> has_next pgn = (page pgn = 1 \<or> page pgn = 2)))"
proof -
  note ok = get_items_ok [OF assms(1)]
  let ?pp = "min (args_get_int args ''per_page'' 10) 100"
  let ?pg = "args_get_int args ''page'' 1"
  let ?n = "int (length (filter (row_matches cv (build_query args)) (rows d)))"
  let ?m = "order_rows (order_by (build_query args))
              (filter (row_matches cv (build_query args)) (rows d))"
  have pp: "per_page pgn = ?pp" and pg: "page pgn = ?pg" and n: "total_items pgn = ?n"
    and tp: "total_pages pgn = (?n + ?pp - 1) div ?pp"
    and hn: "has_next pgn = (?pg < (?n + ?pp - 1) div ?pp)"
    and hp: "has_prev pgn = (?pg > 1)"
    by (simp_all add: ok(1))
  have count: "total_items pgn = int (length (filter (row_matches cv (build_query args)) (rows d)))"
    by (simp add: n)
  have ceil: "total_pages pgn = \<lceil>(of_int (total_items pgn) :: rat) / of_int (per_page pgn)\<rceil>"
    using assms(2) ceil_div_pos [of "per_page pgn" "total_items pgn"] by (simp add: tp n pp)
  have next_prev: "has_next pgn = (page pgn < total_pages pgn)" "has_prev pgn = (page pgn > 1)"
    by (simp_all add: hn hp pg tp)
  have example: "total_pages pgn = 3 \<and>
            (page pgn = 1 \<or> page pgn = 2 \<longrightarrow> length items = 10 \<and> has_next pgn) \<and>
            (page pgn = 3 \<longrightarrow> length items = 5 \<and> \<not> has_next pgn) \<and>
            (1 \<le> page pgn \<longrightarrow> has_next pgn = (page pgn = 1 \<or> page pgn = 2))"
    if t: "total_items pgn = 25" and p: "per_page pgn = 10"
  proof -
    have three: "total_pages pgn = 3"
      using t p by (simp add: tp n [symmetric] pp [symmetric])
    have len: "length ?m = 25"
      using t count by (simp add: length_order_rows)
    have items: "items = limit_offset 10 ((page pgn - 1) * 10) ?m"
      using ok(2) p by (simp add: pp [symmetric] pg [symmetric])
    have l12: "length items = 10" if "page pgn = 1 \<or> page pgn = 2"
      using that len by (auto simp: items limit_offset_def)
    have l3: "length items = 5" if "page pgn = 3"
      using that len by (simp add: items limit_offset_def)
    show ?thesis
      using three l12 l3 next_prev(1) by auto
  qed
  from count ceil next_prev example show ?thesis by blast
qed

theorem pagination_metadata_witness:
  "fst (get_items plain (numbered_db 25) [(''page'', ''1'')]) =
     (200,
      Listing
        (limit_offset 10 0 (order_rows (Some (''id'', Asc)) (rows (numbered_db 25))))
        \<lparr>page = 1, per_page = 10, total_items = 25, total_pages = 3,
         has_next = True, has_prev = False\<rparr>
        \<lparr>filter_category = None, filter_search = None,
         filter_sort_by = ''id'', filter_sort_order = ''asc''\<rparr>) \<and>
   length (limit_offset 10 0 (order_rows (Some (''id'', Asc)) (rows (numbered_db 25)))) = 10 \<and>
   fst (get_items plain (numbered_db 25) [(''page'', ''2'')]) =
     (200,
      Listing
        (limit_offset 10 10 (order_rows (Some (''id'', Asc)) (rows (numbered_db 25))))
        \<lparr>page = 2, per_page = 10, total_items = 25, total_pages = 3,
         has_next = True, has_prev = True\<rparr>
        \<lparr>filter_category = None, filter_search = None,
         filter_sort_by = ''id'', filter_sort_order = ''asc''\<rparr>) \<and>
   length (limit_offset 10 10 (order_rows (Some (''id'', Asc)) (rows (numbered_db 25)))) = 10 \<and>
   fst (get_items plain (numbered_db 25) [(''page'', ''3'')]) =
     (200,
      Listing
        (limit_offset 10 20 (order_rows (Some (''id'', Asc)) (rows (numbered_db 25))))
        \<lparr>page = 3, per_page = 10, total_items = 25, total_pages = 3,
         has_next = False, has_prev = True\<rparr>
        \<lparr>filter_category = None, filter_search = None,
         filter_sort_by = ''id'', filter_sort_order = ''asc''\<rparr>) \<and>
   length (limit_offset 10 20 (order_rows (Some (''id'', Asc)) (rows (numbered_db 25)))) = 5 \<and>
   (3::int) = \<lceil>(of_int 25 :: rat) / of_int 10\<rceil>"
proof -
  have p1: "fst (get_items plain (numbered_db 25) [(''page'', ''1'')]) =
     (200,
      Listing
        (limit_offset 10 0 (order_rows (Some (''id'', Asc)) (rows (numbered_db 25))))
        \<lparr>page = 1, per_page = 10, total_items = 25, total_pages = 3,
         has_next = True, has_prev = False\<rparr>
        \<lparr>filter_category = None, filter_search = None,
         filter_sort_by = ''id'', filter_sort_order = ''asc''\<rparr>)"
    using get_items_numbered_page [OF py_int_str_digits(1)] by simp
  have p2: "fst (get_items plain (numbered_db 25) [(''page'', ''2'')]) =
     (200,
      Listing
        (limit_offset 10 10 (order_rows (Some (''id'', Asc)) (rows (numbered_db 25))))
        \<lparr>page = 2, per_page = 10, total_items = 25, total_pages = 3,
         has_next = True, has_prev = True\<rparr>
        \<lparr>filter_category = None, filter_search = None,
         filter_sort_by = ''id'', filter_sort_order = ''asc''\<rparr>)"
    using get_items_numbered_page [OF py_int_str_digits(2)] by simp
  have p3: "fst (get_items plain (numbered_db 25) [(''page'', ''3'')]) =
     (200,
      Listing
        (limit_offset 10 20 (order_rows (Some (''id'', Asc)) (rows (numbered_db 25))))
        \<lparr>page = 3, per_page = 10, total_items = 25, total_pages = 3,
         has_next = False, has_prev = True\<rparr>
        \<lparr>filter_category = None, filter_search = None,
         filter_sort_by = ''id'', filter_sort_order = ''asc''\<rparr>)"
    using get_items_numbered_page [OF py_int_str_digits(3)] by simp
  from pagination_metadata [OF p1] pagination_metadata [OF p2] pagination_metadata [OF p3]
    p1 p2 p3
  show ?thesis by simp
qed

text \<open>
  Claim C5. In a store that has room for one more row id, creating an item from the body
  \<^verbatim>\<open>{"name": "X", "price": 9.99, "quantity": 3}\<close> is answered 201 with the new row, and
  fetching the id of that row from the store the creation leaves is answered 200 with the
  same row: its name, price and quantity are the values of the body, its description and
  category are null, and its two timestamps are the time of the insertion, hence equal.
\<close>

theorem create_then_get:
  assumes "0 \<le> sqlite_sequence d" and "next_id d < 2 ^ 63"
  shows "\<exists>item d'.
     create_item cv now d
         (JObj [(''name'', JStr ''X''), (''price'', JFloat (Real (Fin 9.99))), (''quantity'', JInt 3)])
       = ((201, MessageItem ''Item created successfully'' item), d', [InsertItem, SelectItem]) \<and>
     get_item d' (nat (row_id item)) = ((200, Item item), [SelectItem]) \<and>
     item = \<lparr>row_id = next_id d, name = SText ''X'', description = SNull, category = SNull,
             price = SReal (Fin 9.99), quantity = SInt 3,
             created_at = SText now, updated_at = SText now\<rparr> \<and>
     created_at item = updated_at item"
proof -
  let ?item = "\<lparr>row_id = next_id d, name = SText ''X'', description = SNull, category = SNull,
             price = SReal (Fin 9.99), quantity = SInt 3,
             created_at = SText now, updated_at = SText now\<rparr>"
  let ?d' = "d\<lparr>rows := rows d @ [?item], sqlite_sequence := next_id d\<rparr>"
  have pos: "0 < next_id d"
    using assms(1) sqlite_sequence_less_next_id [of d] by simp
  have v: "validate_item_data
         (JObj [(''name'', JStr ''X''), (''price'', JFloat (Real x)), (''quantity'', JInt 3)])
         (Some [''name'']) = Inr []" for x
    by (simp add: validate_item_data_def check_price_def check_quantity_def)
  have ins: "insert_item cv now d (JStr ''X'') JNull JNull (JFloat (Real (Fin x))) (JInt 3)
      = Inr (d\<lparr>rows := rows d @
               [\<lparr>row_id = next_id d, name = SText ''X'', description = SNull, category = SNull,
                 price = SReal (Fin x), quantity = SInt 3,
                 created_at = SText now, updated_at = SText now\<rparr>],
               sqlite_sequence := next_id d\<rparr>, next_id d)" for x
    using assms(2) by (simp add: insert_item_def bind_int_def)
  have sel: "select_by_id (d\<lparr>rows := rows d @ [r], sqlite_sequence := s\<rparr>) (next_id d) = Inr (Some r)"
    if "row_id r = next_id d" for r s
    using assms(2) pos that
    by (simp add: select_by_id_def bind_int_def find_append_right find_fresh_id)
  have c: "create_item cv now d
         (JObj [(''name'', JStr ''X''), (''price'', JFloat (Real (Fin 9.99))), (''quantity'', JInt 3)])
       = ((201, MessageItem ''Item created successfully'' ?item), ?d', [InsertItem, SelectItem])"
    by (simp add: create_item_def create_item_body_def v ins sel respond_def)
  have g: "get_item ?d' (nat (row_id ?item)) = ((200, Item ?item), [SelectItem])"
    using pos sel by (simp add: get_item_def get_item_body_def respond_def)
  from c g show ?thesis by (intro exI [of _ ?item] exI [of _ ?d']) simp
qed

theorem create_then_get_witness:
  "0 \<le> sqlite_sequence (seeded_db plain ''2024-01-01 00:00:00'') \<and>
   next_id (seeded_db plain ''2024-01-01 00:00:00'') = 6 \<and>
   (\<exists>item d'.
     create_item plain ''2024-06-01 12:00:00'' (seeded_db plain ''2024-01-01 00:00:00'')
         (JObj [(''name'', JStr ''X''), (''price'', JFloat (Real (Fin 9.99))), (''quantity'', JInt 3)])
       = ((201, MessageItem ''Item created successfully'' item), d', [InsertItem, SelectItem]) \<and>
     get_item d' (nat (row_id item)) = ((200, Item item), [SelectItem]) \<and>
     item = \<lparr>row_id = 6, name = SText ''X'', description = SNull, category = SNull,
             price = SReal (Fin 9.99), quantity = SInt 3,
             created_at = SText ''2024-06-01 12:00:00'',
             updated_at = SText ''2024-06-01 12:00:00''\<rparr> \<and>
     created_at item = updated_at item)"
proof -
  have s: "0 \<le> sqlite_sequence (seeded_db plain ''2024-01-01 00:00:00'')"
    and n: "next_id (seeded_db plain ''2024-01-01 00:00:00'') = 6"
    by (simp_all add: seeded_db_rows next_id_def)
  have b: "next_id (seeded_db plain ''2024-01-01 00:00:00'') < 2 ^ 63"
    by (simp add: n)
  from create_then_get [OF s b, of plain "''2024-06-01 12:00:00''"] s n show ?thesis
    by simp
qed

text \<open>
  Claim C6, as amended. On a body that is a non-empty dictionary, validation reports the
  name when it is missing or empty, the price when it is present, not null and refused by
  \<^verbatim>\<open>float\<close>, and the quantity when it is present, not null and refused by \<^verbatim>\<open>int\<close>; the
  list of errors holds every one of these failures, in this order, and nothing else. When
  the list is not empty, a creation is answered 400 with the whole list as details, and so is
  an update of an existing id. A body whose price and quantity are both refused gets both
  messages. The body \<^verbatim>\<open>{"name": "A", "price": "abc"}\<close> gets 400 with the message about
  the price. The empty body \<^verbatim>\<open>{}\<close> gets 400 with the message that no JSON data was
  provided, and no details.
\<close>

theorem validation_lists_every_failure:
  assumes "kvs \<noteq> []"
  shows
   "(\<forall>errors. validate_item_data (JObj kvs) (Some [''name'']) = Inr errors \<longrightarrow>
       errors =
         (if (case map_of kvs ''name'' of None \<Rightarrow> True | Some v \<Rightarrow> \<not> truthy v)
          then [required_msg ''name''] else []) @
         (if \<exists>v. map_of kvs ''price'' = Some v \<and> v \<noteq> JNull \<and>
                (py_float v = Inl ValueError \<or> py_float v = Inl TypeError)
          then [price_msg] else []) @
         (if \<exists>v. map_of kvs ''quantity'' = Some v \<and> v \<noteq> JNull \<and>
                (py_int v = Inl ValueError \<or> py_int v = Inl TypeError)
          then [quantity_msg] else []) \<and>
       (errors \<noteq> [] \<longrightarrow>
          create_item cv now d (JObj kvs)
            = ((400, ErrorDetails ''Validation failed'' errors), d, []) \<and>
          (\<forall>r. select_by_id d (int item_id) = Inr (Some r) \<longrightarrow>
             update_item cv now d item_id (JObj kvs)
               = ((400, ErrorDetails ''Validation failed'' errors), d, [SelectItem])))) \<and>
    ((\<exists>v. map_of kvs ''price'' = Some v \<and> v \<noteq> JNull \<and>
           (py_float v = Inl ValueError \<or> py_float v = Inl TypeError)) \<and>
     (\<exists>v. map_of kvs ''quantity'' = Some v \<and> v \<noteq> JNull \<and>
           (py_int v = Inl ValueError \<or> py_int v = Inl TypeError)) \<longrightarrow>
       (\<exists>errors. validate_item_data (JObj kvs) (Some [''name'']) = Inr errors \<and>
          price_msg \<in> set errors \<and> quantity_msg \<in> set errors)) \<and>
    create_item cv now d (JObj [(''name'', JStr ''A''), (''price'', JStr ''abc'')])
      = ((400, ErrorDetails ''Validation failed'' [price_msg]), d, []) \<and>
    create_item cv now d (JObj []) = ((400, Error ''No JSON data provided''), d, [])"
proof -
  have t: "truthy (JObj kvs)" using assms by simp
  have c: "create_item cv now d (JObj kvs)
            = ((400, ErrorDetails ''Validation failed'' errors), d, [])"
    if "validate_item_data (JObj kvs) (Some [''name'']) = Inr errors" "errors \<noteq> []" for errors
    using that t by (simp add: create_item_def create_item_body_def respond_def)
  have u: "update_item cv now d item_id (JObj kvs)
               = ((400, ErrorDetails ''Validation failed'' errors), d, [SelectItem])"
    if "validate_item_data (JObj kvs) (Some [''name'']) = Inr errors" "errors \<noteq> []"
      "select_by_id d (int item_id) = Inr (Some r)" for errors r
    using that t
    by (simp add: update_item_def update_item_body_def respond_def validate_default)
  have both: "\<exists>errors. validate_item_data (JObj kvs) (Some [''name'']) = Inr errors \<and>
          price_msg \<in> set errors \<and> quantity_msg \<in> set errors"
    if "\<exists>v. map_of kvs ''price'' = Some v \<and> v \<noteq> JNull \<and>
           (py_float v = Inl ValueError \<or> py_float v = Inl TypeError)"
      "\<exists>v. map_of kvs ''quantity'' = Some v \<and> v \<noteq> JNull \<and>
           (py_int v = Inl ValueError \<or> py_int v = Inl TypeError)"
  proof -
    from that obtain p q where
      "map_of kvs ''price'' = Some p" "p \<noteq> JNull"
      "py_float p = Inl ValueError \<or> py_float p = Inl TypeError"
      "map_of kvs ''quantity'' = Some q" "q \<noteq> JNull"
      "py_int q = Inl ValueError \<or> py_int q = Inl TypeError"
      by blast
    from validate_both_refused [OF this] show ?thesis by simp
  qed
  have abc: "create_item cv now d (JObj [(''name'', JStr ''A''), (''price'', JStr ''abc'')])
      = ((400, ErrorDetails ''Validation failed'' [price_msg]), d, [])"
    by (simp add: create_item_def create_item_body_def respond_def validate_bad_price_create)
  have empty: "create_item cv now d (JObj []) = ((400, Error ''No JSON data provided''), d, [])"
    by (simp add: create_item_def create_item_body_def respond_def)
  show ?thesis
    using validate_obj [of kvs] c u both abc empty by blast
qed

theorem validation_lists_every_failure_witness:
  "[(''name'', JStr ''A''), (''price'', JStr ''abc''), (''quantity'', JStr ''x'')] \<noteq> [] \<and>
   validate_item_data
     (JObj [(''name'', JStr ''A''), (''price'', JStr ''abc''), (''quantity'', JStr ''x'')])
     (Some [''name'']) = Inr [price_msg, quantity_msg] \<and>
   create_item plain ''2024-06-01 12:00:00'' (seeded_db plain ''2024-01-01 00:00:00'')
       (JObj [(''name'', JStr ''A''), (''price'', JStr ''abc''), (''quantity'', JStr ''x'')])
     = ((400, ErrorDetails ''Validation failed'' [price_msg, quantity_msg]),
        seeded_db plain ''2024-01-01 00:00:00'', []) \<and>
   update_item plain ''2024-06-01 12:00:00'' (seeded_db plain ''2024-01-01 00:00:00'') 1
       (JObj [(''name'', JStr ''A''), (''price'', JStr ''abc''), (''quantity'', JStr ''x'')])
     = ((400, ErrorDetails ''Validation failed'' [price_msg, quantity_msg]),
        seeded_db plain ''2024-01-01 00:00:00'', [SelectItem])"
proof -
  have ne: "[(''name'', JStr ''A''), (''price'', JStr ''abc''), (''quantity'', JStr ''x'')] \<noteq> []"
    by simp
  from validation_lists_every_failure [OF ne, of plain "''2024-06-01 12:00:00''"
      "seeded_db plain ''2024-01-01 00:00:00''" 1]
    validate_bad_both select_by_id_seeded_1 [of plain "''2024-01-01 00:00:00''"]
  show ?thesis by simp
qed

text \<open>
  The claim as it was stated fails: the answer to the body \<^verbatim>\<open>{}\<close> has no details that
  could mention the name, and a price that is no finite number passes, since \<^verbatim>\<open>float\<close>
  accepts \<^verbatim>\<open>"inf"\<close>.
\<close>

theorem empty_body_counterexample:
  "create_item plain ''2024-06-01 12:00:00'' (seeded_db plain ''2024-01-01 00:00:00'') (JObj [])
     = ((400, Error ''No JSON data provided''), seeded_db plain ''2024-01-01 00:00:00'', []) \<and>
   fst (fst (create_item plain ''2024-06-01 12:00:00'' (seeded_db plain ''2024-01-01 00:00:00'')
       (JObj [(''name'', JStr ''A''), (''price'', JStr ''inf'')]))) = 201"
  by (simp add: create_item_def create_item_body_def respond_def validate_item_data_def
      check_price_def check_quantity_def float_inf insert_item_def plain_def next_id_def
      bind_int_def seeded_db_rows select_by_id_def)






text \<open>
  Claim C9, as amended. For an id below \<open>2 ^ 63\<close>, the deletion is answered 200 with the
  confirmation message exactly when a row has the id; the rows with that id are then
  removed, the other rows stay, and a second deletion of the id is answered 404. When no
  row has the id the deletion is answered 404, the store is unchanged, and a second
  deletion is answered 404 again, with the store unchanged again. An id from \<open>2 ^ 63\<close> on
  cannot be bound to the statement: the deletion is answered 500 and changes nothing.
\<close>

theorem delete_item_outcome:
  "(int item_id < 2 ^ 63 \<and> (\<exists>r \<in> set (rows d). row_id r = int item_id) \<longrightarrow>
      delete_item d item_id =
        ((200, Message ''Item deleted successfully''),
         d\<lparr>rows := filter (\<lambda>r. row_id r \<noteq> int item_id) (rows d)\<rparr>,
         [SelectItem, DeleteItem]) \<and>
      fst (delete_item (fst (snd (delete_item d item_id))) item_id)
        = (404, Error ''Item not found'')) \<and>
   (int item_id < 2 ^ 63 \<and> \<not> (\<exists>r \<in> set (rows d). row_id r = int item_id) \<longrightarrow>
      delete_item d item_id = ((404, Error ''Item not found''), d, [SelectItem]) \<and>
      delete_item (fst (snd (delete_item d item_id))) item_id
        = ((404, Error ''Item not found''), d, [SelectItem])) \<and>
   (2 ^ 63 \<le> int item_id \<longrightarrow>
      delete_item d item_id = ((500, Error ''Internal server error''), d, []))"
proof -
  have b: "int item_id < 2 ^ 63 \<Longrightarrow> bind_int (int item_id) = Inr (int item_id)"
    by (simp add: bind_int_def)
  have nb: "2 ^ 63 \<le> int item_id \<Longrightarrow> bind_int (int item_id) = Inl OverflowError"
    by (simp add: bind_int_def)
  have absent: "delete_item d' item_id = ((404, Error ''Item not found''), d', [SelectItem])"
    if "int item_id < 2 ^ 63" "\<not> (\<exists>r \<in> set (rows d'). row_id r = int item_id)" for d'
    using that b
    by (simp add: delete_item_def delete_item_body_def select_by_id_def respond_def
        find_None_iff [THEN iffD2])
  have present: "delete_item d item_id =
        ((200, Message ''Item deleted successfully''),
         d\<lparr>rows := filter (\<lambda>r. row_id r \<noteq> int item_id) (rows d)\<rparr>,
         [SelectItem, DeleteItem])"
    if "int item_id < 2 ^ 63" "\<exists>r \<in> set (rows d). row_id r = int item_id"
  proof -
    from that(2) obtain r where "List.find (\<lambda>r. row_id r = int item_id) (rows d) = Some r"
      by (cases "List.find (\<lambda>r. row_id r = int item_id) (rows d)") (auto simp: find_None_iff)
    then show ?thesis
      using b [OF that(1)]
      by (simp add: delete_item_def delete_item_body_def select_by_id_def exec_delete_def
          respond_def)
  qed
  have over: "delete_item d item_id = ((500, Error ''Internal server error''), d, [])"
    if "2 ^ 63 \<le> int item_id"
    using nb [OF that]
    by (simp add: delete_item_def delete_item_body_def select_by_id_def respond_def
        internal_error_def)
  have again: "fst (delete_item (fst (snd (delete_item d item_id))) item_id)
        = (404, Error ''Item not found'')"
    if "int item_id < 2 ^ 63" "\<exists>r \<in> set (rows d). row_id r = int item_id"
    using absent [of "d\<lparr>rows := filter (\<lambda>r. row_id r \<noteq> int item_id) (rows d)\<rparr>"] that
    by (simp add: present)
  have twice: "delete_item (fst (snd (delete_item d item_id))) item_id
        = ((404, Error ''Item not found''), d, [SelectItem])"
    if "int item_id < 2 ^ 63" "\<not> (\<exists>r \<in> set (rows d). row_id r = int item_id)"
    using absent [of d] that by simp
  show ?thesis
    using present again absent [of d] twice over by blast
qed

theorem delete_item_outcome_witness:
  "int 2 < 2 ^ 63 \<and>
   (\<exists>r \<in> set (rows (seeded_db plain ''2024-01-01 00:00:00'')). row_id r = int 2) \<and>
   delete_item (seeded_db plain ''2024-01-01 00:00:00'') 2 =
     ((200, Message ''Item deleted successfully''),
      (seeded_db plain ''2024-01-01 00:00:00'')
        \<lparr>rows := filter (\<lambda>r. row_id r \<noteq> int 2)
                   (rows (seeded_db plain ''2024-01-01 00:00:00''))\<rparr>,
      [SelectItem, DeleteItem]) \<and>
   map row_id (rows (fst (snd (delete_item (seeded_db plain ''2024-01-01 00:00:00'') 2))))
     = [1, 3, 4, 5] \<and>
   int 7 < 2 ^ 63 \<and>
   \<not> (\<exists>r \<in> set (rows (seeded_db plain ''2024-01-01 00:00:00'')). row_id r = int 7) \<and>
   delete_item (seeded_db plain ''2024-01-01 00:00:00'') 7 =
     ((404, Error ''Item not found''), seeded_db plain ''2024-01-01 00:00:00'', [SelectItem]) \<and>
   delete_item (fst (snd (delete_item (seeded_db plain ''2024-01-01 00:00:00'') 7))) 7 =
     ((404, Error ''Item not found''), seeded_db plain ''2024-01-01 00:00:00'', [SelectItem]) \<and>
   (2 :: int) ^ 63 \<le> int 9223372036854775808 \<and>
   delete_item (seeded_db plain ''2024-01-01 00:00:00'') 9223372036854775808 =
     ((500, Error ''Internal server error''), seeded_db plain ''2024-01-01 00:00:00'', [])"
proof -
  let ?d = "seeded_db plain ''2024-01-01 00:00:00''"
  have two: "\<exists>r \<in> set (rows ?d). row_id r = int 2"
    and seven: "\<not> (\<exists>r \<in> set (rows ?d). row_id r = int 7)"
    by (simp_all add: seeded_db_rows)
  have left: "map row_id (filter (\<lambda>r. row_id r \<noteq> int 2) (rows ?d)) = [1, 3, 4, 5]"
    by (simp add: seeded_db_rows)
  from delete_item_outcome [of 2 ?d] delete_item_outcome [of 7 ?d]
    delete_item_outcome [of 9223372036854775808 ?d] two seven left
  show ?thesis by simp
qed


text \<open>
  The claim as it was stated fails: the route accepts the id \<open>2 ^ 63\<close>, no row has it,
  and the answer is 500, not 404.
\<close>

theorem delete_huge_id_counterexample:
  "\<not> (\<exists>r \<in> set (rows (seeded_db plain ''2024-01-01 00:00:00'')). row_id r = 9223372036854775808) \<and>
   delete_item (seeded_db plain ''2024-01-01 00:00:00'') 9223372036854775808 =
     ((500, Error ''Internal server error''), seeded_db plain ''2024-01-01 00:00:00'', [])"
  by (simp add: delete_item_def delete_item_body_def select_by_id_def bind_int_def respond_def
      internal_error_def seeded_db_rows)



end
